theory Spec2Isabelle
  imports Main "HOL-Library.Word"
begin

section \<open>Data model\<close>

text \<open>
  The library (\<^verbatim>\<open>src/index.js\<close>) is JavaScript. A JavaScript string is a sequence of
  16-bit code units, the contents of an \<^verbatim>\<open>ArrayBuffer\<close> seen through a
  \<^verbatim>\<open>Uint8Array\<close> is a sequence of 8-bit bytes. Literal strings of the source that are
  only compared (storage field names, error messages) are kept as HOL strings.
\<close>

type_synonym byte = "8 word"
type_synonym code_unit = "16 word"
type_synonym jsstring = "code_unit list"

text \<open>The code units of an ASCII literal of the source.\<close>

definition js :: "string \<Rightarrow> jsstring" where
  "js s = map (\<lambda>c. of_nat (of_char c)) s"

section \<open>Codec: \<^verbatim>\<open>ab2str\<close> and \<^verbatim>\<open>str2ab\<close>\<close>

text \<open>
  \<^verbatim>\<open>String.fromCharCode(n1, n2, ...)\<close> turns each number into the code unit
  \<open>n mod 2^16\<close>. Reading a \<^verbatim>\<open>Uint8Array\<close> element gives the number \<open>unat b\<close>.
  \<^verbatim>\<open>
  function ab2str(buf) {
    return String.fromCharCode.apply(null, new Uint8Array(buf));
  }
  \<close>
  ECMAScript puts no bound on the number of arguments of \<^verbatim>\<open>apply\<close>; the limit a
  particular engine has on it is not part of the model.
\<close>

definition fromCharCode :: "nat list \<Rightarrow> jsstring" where
  "fromCharCode codes = map (\<lambda>n. of_nat (n mod 65536)) codes"

definition ab2str :: "byte list \<Rightarrow> jsstring" where
  "ab2str buf = fromCharCode (map unat buf)"

text \<open>
  \<^verbatim>\<open>str.charCodeAt(i)\<close> is the code unit at \<open>i\<close>, and \<^verbatim>\<open>NaN\<close> (here \<open>None\<close>) out of
  range. Storing a number into a \<^verbatim>\<open>Uint8Array\<close> applies \<^verbatim>\<open>ToUint8\<close>: \<^verbatim>\<open>NaN\<close> becomes 0,
  an integer is reduced modulo 256; a store out of range is ignored.
\<close>

definition charCodeAt :: "jsstring \<Rightarrow> nat \<Rightarrow> nat option" where
  "charCodeAt str i = (if i < length str then Some (unat (str ! i)) else None)"

definition ToUint8 :: "nat option \<Rightarrow> byte" where
  "ToUint8 v = (case v of None \<Rightarrow> 0 | Some n \<Rightarrow> of_nat (n mod 256))"

definition typed_set :: "byte list \<Rightarrow> nat \<Rightarrow> nat option \<Rightarrow> byte list" where
  "typed_set bufView i v = (if i < length bufView then bufView[i := ToUint8 v] else bufView)"

text \<open>
  \<^verbatim>\<open>
  function str2ab(str) {
    const buf = new ArrayBuffer(str.length);
    const bufView = new Uint8Array(buf);
    for (let i = 0, strLen = str.length; i < strLen; i++) {
      bufView[i] = str.charCodeAt(i);
    }
    return buf;
  }
  \<close>
  A fresh \<^verbatim>\<open>ArrayBuffer\<close> is filled with zeros. The \<^verbatim>\<open>for\<close> loop is the recursion
  \<open>str2ab_loop\<close> on the loop variable \<open>i\<close>.
\<close>

function str2ab_loop :: "jsstring \<Rightarrow> nat \<Rightarrow> nat \<Rightarrow> byte list \<Rightarrow> byte list" where
  "str2ab_loop str i strLen bufView =
     (if i < strLen
      then str2ab_loop str (Suc i) strLen (typed_set bufView i (charCodeAt str i))
      else bufView)"
  by pat_completeness auto
termination
  by (relation "measure (\<lambda>(str, i, strLen, bufView). strLen - i)") auto

declare str2ab_loop.simps [simp del]

definition str2ab :: "jsstring \<Rightarrow> byte list" where
  "str2ab str = str2ab_loop str 0 (length str) (replicate (length str) 0)"

section \<open>Errors\<close>

text \<open>
  The library throws plain \<^verbatim>\<open>Error\<close> objects carrying a message. The platform functions
  it calls throw \<^verbatim>\<open>DOMException\<close>s, told apart by name, and \<^verbatim>\<open>TypeError\<close>.
\<close>

datatype dom_exception_name =
    InvalidCharacterError | DataError | SyntaxError | InvalidAccessError
  | OperationError | QuotaExceededError

datatype error = Error string | DOMException dom_exception_name | TypeError

section \<open>Base64: the platform's \<^verbatim>\<open>btoa\<close> and \<^verbatim>\<open>atob\<close>\<close>

text \<open>
  \<^verbatim>\<open>window.btoa\<close> and \<^verbatim>\<open>window.atob\<close> are functions of the browser, not of this
  repository. They are modelled after their definition in the HTML standard
  (forgiving-base64 encode and decode over the alphabet of RFC 4648).

  \<open>b64_char\<close> is the alphabet \<^verbatim>\<open>A-Z a-z 0-9 + /\<close> by position, \<open>b64_index\<close> the position
  of a code unit in it.
\<close>

definition b64_char :: "nat \<Rightarrow> code_unit" where
  "b64_char n = of_nat
     (if n < 26 then 65 + n
      else if n < 52 then 97 + (n - 26)
      else if n < 62 then 48 + (n - 52)
      else if n = 62 then 43 else 47)"

definition b64_index :: "code_unit \<Rightarrow> nat option" where
  "b64_index c = (let n = unat c in
     if 65 \<le> n \<and> n \<le> 90 then Some (n - 65)
     else if 97 \<le> n \<and> n \<le> 122 then Some (n - 97 + 26)
     else if 48 \<le> n \<and> n \<le> 57 then Some (n - 48 + 52)
     else if n = 43 then Some 62
     else if n = 47 then Some 63
     else None)"

text \<open>The padding character \<^verbatim>\<open>=\<close>.\<close>

definition b64_pad :: code_unit where
  "b64_pad = 61"

text \<open>
  Encoding: every three bytes give four 6-bit groups; one or two bytes left at the end
  give two or three groups, the unused low bits being zero. The output is the alphabet
  character of each group, padded with \<^verbatim>\<open>=\<close> to a multiple of four characters.
\<close>

fun b64_sextets :: "nat list \<Rightarrow> nat list" where
  "b64_sextets [] = []"
| "b64_sextets [a] = [a div 4, (a mod 4) * 16]"
| "b64_sextets [a, b] = [a div 4, (a mod 4) * 16 + b div 16, (b mod 16) * 4]"
| "b64_sextets (a # b # c # bytes) =
     [a div 4, (a mod 4) * 16 + b div 16, (b mod 16) * 4 + c div 64, c mod 64]
     @ b64_sextets bytes"

definition b64_encode :: "nat list \<Rightarrow> jsstring" where
  "b64_encode bytes =
     map b64_char (b64_sextets bytes) @ replicate ((3 - length bytes mod 3) mod 3) b64_pad"

text \<open>
  \<^verbatim>\<open>btoa(data)\<close> throws \<^verbatim>\<open>InvalidCharacterError\<close> when \<open>data\<close> has a code unit above
  \<^verbatim>\<open>U+00FF\<close>, and otherwise encodes the bytes that are the code units of \<open>data\<close>.
\<close>

definition btoa :: "jsstring \<Rightarrow> error + jsstring" where
  "btoa data =
     (if list_ex (\<lambda>c. 255 < unat c) data then Inl (DOMException InvalidCharacterError)
      else Inr (b64_encode (map unat data)))"

text \<open>
  Decoding (forgiving-base64 decode):
  \<^enum> remove all ASCII whitespace (TAB, LF, FF, CR, SPACE);
  \<^enum> if the length is a multiple of four, remove one or two trailing \<^verbatim>\<open>=\<close>;
  \<^enum> fail if the length is 1 modulo 4;
  \<^enum> fail if a character is not in the alphabet;
  \<^enum> every four 6-bit groups give three bytes; two groups left at the end give one
    byte and three give two, the last four or two bits being discarded.
\<close>

definition is_ascii_whitespace :: "code_unit \<Rightarrow> bool" where
  "is_ascii_whitespace c = (unat c \<in> {9, 10, 12, 13, 32})"

definition strip_padding :: "jsstring \<Rightarrow> jsstring" where
  "strip_padding d =
     (if length d mod 4 = 0 then
        (if 2 \<le> length d \<and> last d = b64_pad \<and> last (butlast d) = b64_pad
         then butlast (butlast d)
         else if d \<noteq> [] \<and> last d = b64_pad then butlast d
         else d)
      else d)"

fun b64_octets :: "nat list \<Rightarrow> nat list" where
  "b64_octets (a # b # c # d # sextets) =
     [a * 4 + b div 16, (b mod 16) * 16 + c div 4, (c mod 4) * 64 + d] @ b64_octets sextets"
| "b64_octets [a, b, c] = [a * 4 + b div 16, (b mod 16) * 16 + c div 4]"
| "b64_octets [a, b] = [a * 4 + b div 16]"
| "b64_octets _ = []"

fun those_indices :: "jsstring \<Rightarrow> nat list option" where
  "those_indices [] = Some []"
| "those_indices (c # cs) =
     (case b64_index c of
        None \<Rightarrow> None
      | Some n \<Rightarrow> (case those_indices cs of None \<Rightarrow> None | Some ns \<Rightarrow> Some (n # ns)))"

definition atob :: "jsstring \<Rightarrow> error + jsstring" where
  "atob data =
     (let d = strip_padding (filter (\<lambda>c. \<not> is_ascii_whitespace c) data) in
      if length d mod 4 = 1 then Inl (DOMException InvalidCharacterError)
      else (case those_indices d of
              None \<Rightarrow> Inl (DOMException InvalidCharacterError)
            | Some sextets \<Rightarrow> Inr (fromCharCode (b64_octets sextets))))"

section \<open>Numbers as text: \<^verbatim>\<open>Number.prototype.toString\<close> and \<^verbatim>\<open>parseInt\<close>\<close>

text \<open>
  The only numbers of the library are time values in milliseconds. \<^verbatim>\<open>Date.now()\<close> is an
  integer of magnitude at most \<open>8.64 * 10^15\<close>, below \<open>2^53\<close>, so these numbers and their
  sums with 3600000 are exact in double precision and are modelled as \<open>int\<close>. A number
  that may be \<^verbatim>\<open>NaN\<close> is an \<open>int option\<close>, \<open>None\<close> being \<^verbatim>\<open>NaN\<close>.

  \<^verbatim>\<open>n.toString()\<close> of an integer below \<open>10^21\<close> in magnitude is its decimal numeral, with a
  leading \<^verbatim>\<open>-\<close> when negative.
\<close>

type_synonym number = "int option"

definition digit_char :: "nat \<Rightarrow> code_unit" where
  "digit_char d = of_nat (48 + d)"

fun nat_digits :: "nat \<Rightarrow> jsstring" where
  "nat_digits n =
     (if n < 10 then [digit_char n]
      else nat_digits (n div 10) @ [digit_char (n mod 10)])"

declare nat_digits.simps [simp del]

definition Number_toString :: "int \<Rightarrow> jsstring" where
  "Number_toString n = (if n < 0 then 45 # nat_digits (nat (- n)) else nat_digits (nat n))"

text \<open>
  \<^verbatim>\<open>parseInt(string)\<close> without a radix (ECMAScript, \<^verbatim>\<open>parseInt\<close>): the argument is
  converted to a string (\<^verbatim>\<open>null\<close> gives \<^verbatim>\<open>"null"\<close>); leading white space is skipped;
  a sign is read; a prefix \<^verbatim>\<open>0x\<close> or \<^verbatim>\<open>0X\<close> selects radix 16, otherwise the radix is
  10; the longest prefix of digits of the radix is the numeral; when it is empty the
  result is \<^verbatim>\<open>NaN\<close>. The value is kept as the exact integer. JavaScript rounds a
  numeral beyond \<open>2^53\<close> to a double; the rounding is monotone and leaves the integers up
  to \<open>2^53\<close> as they are, so comparing the result with a time value gives the same
  answer as comparing the exact integers.
\<close>

definition ToString_nullable :: "jsstring option \<Rightarrow> jsstring" where
  "ToString_nullable v = (case v of None \<Rightarrow> js ''null'' | Some s \<Rightarrow> s)"

definition is_StrWhiteSpaceChar :: "code_unit \<Rightarrow> bool" where
  "is_StrWhiteSpaceChar c = (let n = unat c in
     n \<in> {9, 10, 11, 12, 13, 32, 160, 5760, 8232, 8233, 8239, 8287, 12288, 65279}
     \<or> (8192 \<le> n \<and> n \<le> 8202))"

definition digit_of :: "code_unit \<Rightarrow> nat option" where
  "digit_of c = (let n = unat c in
     if 48 \<le> n \<and> n \<le> 57 then Some (n - 48)
     else if 97 \<le> n \<and> n \<le> 122 then Some (n - 97 + 10)
     else if 65 \<le> n \<and> n \<le> 90 then Some (n - 65 + 10)
     else None)"

definition radix_digit :: "nat \<Rightarrow> code_unit \<Rightarrow> bool" where
  "radix_digit R c = (case digit_of c of None \<Rightarrow> False | Some d \<Rightarrow> d < R)"

fun digits_value :: "nat \<Rightarrow> nat \<Rightarrow> jsstring \<Rightarrow> nat" where
  "digits_value R acc [] = acc"
| "digits_value R acc (c # cs) =
     digits_value R (acc * R + (case digit_of c of None \<Rightarrow> 0 | Some d \<Rightarrow> d)) cs"

text \<open>The sign of the numeral, and the string after a leading \<^verbatim>\<open>+\<close> or \<^verbatim>\<open>-\<close>.\<close>

fun numeral_sign :: "jsstring \<Rightarrow> int" where
  "numeral_sign (c # cs) = (if c = 45 then - 1 else 1)"
| "numeral_sign [] = 1"

fun strip_sign :: "jsstring \<Rightarrow> jsstring" where
  "strip_sign (c # cs) = (if c = 43 \<or> c = 45 then cs else c # cs)"
| "strip_sign [] = []"

text \<open>Whether the string has at least two code units and starts with \<^verbatim>\<open>0x\<close> or \<^verbatim>\<open>0X\<close>.\<close>

fun has_hex_prefix :: "jsstring \<Rightarrow> bool" where
  "has_hex_prefix (a # b # cs) = (a = 48 \<and> (b = 120 \<or> b = 88))"
| "has_hex_prefix _ = False"

definition parseInt :: "jsstring \<Rightarrow> number" where
  "parseInt inputString =
     (let S = dropWhile is_StrWhiteSpaceChar inputString;
          sign = numeral_sign S;
          S1 = strip_sign S;
          R = (if has_hex_prefix S1 then 16 else 10);
          S2 = (if has_hex_prefix S1 then drop 2 S1 else S1);
          Z = takeWhile (radix_digit R) S2
      in if Z = [] then None else Some (sign * int (digits_value R 0 Z)))"

text \<open>The comparison \<^verbatim>\<open>a < b\<close> of two numbers is false when either is \<^verbatim>\<open>NaN\<close>.\<close>

definition number_less :: "number \<Rightarrow> number \<Rightarrow> bool" where
  "number_less a b = (case (a, b) of (Some x, Some y) \<Rightarrow> x < y | _ \<Rightarrow> False)"

section \<open>UTF-8: \<^verbatim>\<open>TextEncoder.encode\<close>\<close>

text \<open>
  \<^verbatim>\<open>new TextEncoder().encode(s)\<close> reads the code units of \<open>s\<close> as UTF-16, a surrogate
  that has no partner becoming \<^verbatim>\<open>U+FFFD\<close>, and writes each code point in UTF-8.
\<close>

definition utf8_bytes :: "nat \<Rightarrow> byte list" where
  "utf8_bytes cp =
     (if cp < 128 then [of_nat cp]
      else if cp < 2048 then [of_nat (192 + cp div 64), of_nat (128 + cp mod 64)]
      else if cp < 65536 then
        [of_nat (224 + cp div 4096), of_nat (128 + cp div 64 mod 64), of_nat (128 + cp mod 64)]
      else
        [of_nat (240 + cp div 262144), of_nat (128 + cp div 4096 mod 64),
         of_nat (128 + cp div 64 mod 64), of_nat (128 + cp mod 64)])"

definition is_high_surrogate :: "code_unit \<Rightarrow> bool" where
  "is_high_surrogate c = (55296 \<le> unat c \<and> unat c \<le> 56319)"

definition is_low_surrogate :: "code_unit \<Rightarrow> bool" where
  "is_low_surrogate c = (56320 \<le> unat c \<and> unat c \<le> 57343)"

definition scalar_value :: "code_unit \<Rightarrow> nat" where
  "scalar_value c = (if is_high_surrogate c \<or> is_low_surrogate c then 65533 else unat c)"

fun utf8_encode :: "jsstring \<Rightarrow> byte list" where
  "utf8_encode [] = []"
| "utf8_encode [c] = utf8_bytes (scalar_value c)"
| "utf8_encode (c # d # cs) =
     (if is_high_surrogate c \<and> is_low_surrogate d
      then utf8_bytes (65536 + (unat c - 55296) * 1024 + (unat d - 56320)) @ utf8_encode cs
      else utf8_bytes (scalar_value c) @ utf8_encode (d # cs))"

section \<open>The platform: key handles, Web Crypto, storage, clock and console\<close>

text \<open>
  A \<^verbatim>\<open>CryptoKey\<close> is a handle with a type, an extractable flag, an algorithm (for RSA
  keys its name and hash), a list of usages and the key itself, which the library never
  looks into: here the length of its modulus and an identifier.
\<close>

datatype key_type = Public | Private

datatype key_usage =
  Encrypt | Decrypt | Sign | Verify | DeriveKey | DeriveBits | WrapKey | UnwrapKey

datatype key_format = Spki | Pkcs8

datatype algorithm_name = RSA_OAEP | RSA_PSS | RSASSA_PKCS1_v1_5

datatype hash_name = SHA_1 | SHA_256 | SHA_384 | SHA_512

record rsa_key_data =
  modulus_bits :: nat
  key_id :: nat

record cryptokey =
  key_type :: key_type
  extractable :: bool
  alg_name :: algorithm_name
  alg_hash :: hash_name
  usages :: "key_usage list"
  key_data :: rsa_key_data

record keypair =
  privateKey :: cryptokey
  publicKey :: cryptokey

text \<open>
  What the library does not fix about the browser it runs in is a parameter of the
  model: the parsers and writers of the two DER key structures, the RSA primitives
  (with the random choices they make), the UTF-8 decoder of \<^verbatim>\<open>TextDecoder\<close>, and
  whether the storage refuses a write (quota, private browsing).
\<close>

record platform =
  parse_spki :: "byte list \<Rightarrow> rsa_key_data option"
  parse_pkcs8 :: "byte list \<Rightarrow> rsa_key_data option"
  encode_spki :: "rsa_key_data \<Rightarrow> byte list"
  encode_pkcs8 :: "rsa_key_data \<Rightarrow> byte list"
  generate_rsa :: "nat \<Rightarrow> byte list \<Rightarrow> (rsa_key_data \<times> rsa_key_data) option"
  rsaes_oaep_encrypt :: "rsa_key_data \<Rightarrow> hash_name \<Rightarrow> byte list \<Rightarrow> byte list"
  rsaes_oaep_decrypt :: "rsa_key_data \<Rightarrow> hash_name \<Rightarrow> byte list \<Rightarrow> byte list option"
  utf8_decode :: "byte list \<Rightarrow> jsstring"
  storage_refuses :: "(string \<rightharpoonup> jsstring) \<Rightarrow> string \<Rightarrow> jsstring \<Rightarrow> bool"

text \<open>
  The state the library reads and writes: the entries of \<^verbatim>\<open>localStorage\<close>, the clock
  read by \<^verbatim>\<open>Date.now()\<close>, what has been written with \<^verbatim>\<open>console.error\<close>, and the calls
  made to \<^verbatim>\<open>window.crypto.subtle\<close>, in order.
\<close>

datatype subtle_call =
  GenerateKeyCall | ExportKeyCall key_format | ImportKeyCall key_format | EncryptCall | DecryptCall

record world =
  localStorage :: "string \<rightharpoonup> jsstring"
  clock :: int
  console :: "error list"
  subtle_calls :: "subtle_call list"

text \<open>
  A JavaScript computation takes the state and gives back a value or a thrown error,
  and the new state. An \<^verbatim>\<open>await\<close>ed call and a plain call in sequence are both
  \<open>js_bind\<close>: the library starts no concurrent work. \<open>js_catch\<close> is \<^verbatim>\<open>try/catch\<close>.
\<close>

type_synonym 'a js = "world \<Rightarrow> (error + 'a) \<times> world"

definition js_return :: "'a \<Rightarrow> 'a js" where
  "js_return x w = (Inr x, w)"

definition js_throw :: "error \<Rightarrow> 'a js" where
  "js_throw e w = (Inl e, w)"

definition js_lift :: "error + 'a \<Rightarrow> 'a js" where
  "js_lift r w = (r, w)"

definition js_bind :: "'a js \<Rightarrow> ('a \<Rightarrow> 'b js) \<Rightarrow> 'b js" where
  "js_bind m f w = (case m w of (Inl e, w') \<Rightarrow> (Inl e, w') | (Inr x, w') \<Rightarrow> f x w')"

definition js_catch :: "'a js \<Rightarrow> (error \<Rightarrow> 'a js) \<Rightarrow> 'a js" where
  "js_catch m handler w = (case m w of (Inl e, w') \<Rightarrow> handler e w' | (Inr x, w') \<Rightarrow> (Inr x, w'))"

subsection \<open>Clock, console and storage\<close>

definition Date_now :: "int js" where
  "Date_now w = (Inr (clock w), w)"

definition console_error :: "error \<Rightarrow> unit js" where
  "console_error e w = (Inr (), w\<lparr>console := console w @ [e]\<rparr>)"

text \<open>
  \<^verbatim>\<open>localStorage.getItem(k)\<close> is the value stored under \<open>k\<close>, or \<^verbatim>\<open>null\<close> (here \<open>None\<close>).
  \<^verbatim>\<open>localStorage.setItem(k, v)\<close> stores \<open>v\<close> under \<open>k\<close>, or throws
  \<^verbatim>\<open>QuotaExceededError\<close> and stores nothing when the storage refuses the write.
\<close>

definition getItem :: "string \<Rightarrow> jsstring option js" where
  "getItem k w = (Inr (localStorage w k), w)"

definition setItem :: "platform \<Rightarrow> string \<Rightarrow> jsstring \<Rightarrow> unit js" where
  "setItem P k v w =
     (if storage_refuses P (localStorage w) k v then (Inl (DOMException QuotaExceededError), w)
      else (Inr (), w\<lparr>localStorage := (localStorage w)(k \<mapsto> v)\<rparr>))"

subsection \<open>\<^verbatim>\<open>window.crypto.subtle\<close> for RSA-OAEP\<close>

text \<open>
  The operations of the Web Cryptography API that the library calls, for the one
  algorithm it uses, after the W3C recommendation. Every call is recorded in
  \<open>subtle_calls\<close> before its checks run.
\<close>

definition record_call :: "subtle_call \<Rightarrow> unit js" where
  "record_call c w = (Inr (), w\<lparr>subtle_calls := subtle_calls w @ [c]\<rparr>)"

text \<open>The usages of a key handle are kept without duplicates, in the order of the API.\<close>

definition normalize_usages :: "key_usage list \<Rightarrow> key_usage list" where
  "normalize_usages us =
     filter (\<lambda>u. u \<in> set us)
       [Encrypt, Decrypt, Sign, Verify, DeriveKey, DeriveBits, WrapKey, UnwrapKey]"

text \<open>
  \<^verbatim>\<open>generateKey\<close>: a usage other than encrypt, decrypt, wrapKey, unwrapKey is a
  \<^verbatim>\<open>SyntaxError\<close>; a failure of the generation is an \<^verbatim>\<open>OperationError\<close>; the public key
  gets the usages encrypt and wrapKey among those asked for and is always extractable,
  the private key gets decrypt and unwrapKey; a private key without usages is a
  \<^verbatim>\<open>SyntaxError\<close>.
\<close>

definition subtle_generateKey ::
  "platform \<Rightarrow> algorithm_name \<Rightarrow> nat \<Rightarrow> byte list \<Rightarrow> hash_name \<Rightarrow> bool \<Rightarrow> key_usage list
     \<Rightarrow> keypair js" where
  "subtle_generateKey P name modulusLength publicExponent hash extractable_arg keyUsages =
     js_bind (record_call GenerateKeyCall) (\<lambda>_.
       if list_ex (\<lambda>u. u \<notin> {Encrypt, Decrypt, WrapKey, UnwrapKey}) keyUsages
       then js_throw (DOMException SyntaxError)
       else (case generate_rsa P modulusLength publicExponent of
               None \<Rightarrow> js_throw (DOMException OperationError)
             | Some (pub, priv) \<Rightarrow>
                 if normalize_usages (filter (\<lambda>u. u \<in> {Decrypt, UnwrapKey}) keyUsages) = []
                 then js_throw (DOMException SyntaxError)
                 else js_return
                   \<lparr>privateKey =
                      \<lparr>key_type = Private, extractable = extractable_arg, alg_name = name,
                       alg_hash = hash,
                       usages = normalize_usages (filter (\<lambda>u. u \<in> {Decrypt, UnwrapKey}) keyUsages),
                       key_data = priv\<rparr>,
                    publicKey =
                      \<lparr>key_type = Public, extractable = True, alg_name = name,
                       alg_hash = hash,
                       usages = normalize_usages (filter (\<lambda>u. u \<in> {Encrypt, WrapKey}) keyUsages),
                       key_data = pub\<rparr>\<rparr>))"

text \<open>
  \<^verbatim>\<open>exportKey\<close>: a key that is not extractable, a public key asked for as \<^verbatim>\<open>pkcs8\<close> and
  a private key asked for as \<^verbatim>\<open>spki\<close> are each an \<^verbatim>\<open>InvalidAccessError\<close>.
\<close>

definition subtle_exportKey :: "platform \<Rightarrow> key_format \<Rightarrow> cryptokey \<Rightarrow> byte list js" where
  "subtle_exportKey P format key =
     js_bind (record_call (ExportKeyCall format)) (\<lambda>_.
       if \<not> extractable key then js_throw (DOMException InvalidAccessError)
       else (case format of
               Spki \<Rightarrow>
                 if key_type key \<noteq> Public then js_throw (DOMException InvalidAccessError)
                 else js_return (encode_spki P (key_data key))
             | Pkcs8 \<Rightarrow>
                 if key_type key \<noteq> Private then js_throw (DOMException InvalidAccessError)
                 else js_return (encode_pkcs8 P (key_data key))))"

text \<open>
  \<^verbatim>\<open>importKey\<close>: for \<^verbatim>\<open>spki\<close> a usage other than encrypt or wrapKey, for \<^verbatim>\<open>pkcs8\<close> a
  usage other than decrypt or unwrapKey, is a \<^verbatim>\<open>SyntaxError\<close>; data that is not a key of
  the expected structure is a \<^verbatim>\<open>DataError\<close>; a private key without usages is a
  \<^verbatim>\<open>SyntaxError\<close>. The handle carries the algorithm name and hash, the extractable flag
  and the usages that were passed.
\<close>

definition subtle_importKey ::
  "platform \<Rightarrow> key_format \<Rightarrow> byte list \<Rightarrow> algorithm_name \<Rightarrow> hash_name \<Rightarrow> bool \<Rightarrow> key_usage list
     \<Rightarrow> cryptokey js" where
  "subtle_importKey P format keyData name hash extractable_arg keyUsages =
     js_bind (record_call (ImportKeyCall format)) (\<lambda>_.
       case format of
         Spki \<Rightarrow>
           if list_ex (\<lambda>u. u \<notin> {Encrypt, WrapKey}) keyUsages
           then js_throw (DOMException SyntaxError)
           else (case parse_spki P keyData of
                   None \<Rightarrow> js_throw (DOMException DataError)
                 | Some k \<Rightarrow> js_return
                     \<lparr>key_type = Public, extractable = extractable_arg, alg_name = name,
                      alg_hash = hash, usages = normalize_usages keyUsages, key_data = k\<rparr>)
       | Pkcs8 \<Rightarrow>
           if list_ex (\<lambda>u. u \<notin> {Decrypt, UnwrapKey}) keyUsages
           then js_throw (DOMException SyntaxError)
           else (case parse_pkcs8 P keyData of
                   None \<Rightarrow> js_throw (DOMException DataError)
                 | Some k \<Rightarrow>
                     if normalize_usages keyUsages = [] then js_throw (DOMException SyntaxError)
                     else js_return
                       \<lparr>key_type = Private, extractable = extractable_arg, alg_name = name,
                        alg_hash = hash, usages = normalize_usages keyUsages, key_data = k\<rparr>))"

text \<open>
  \<^verbatim>\<open>encrypt\<close>: the algorithm asked for must be the key's, the key must have the usage
  encrypt and be a public key, each failure an \<^verbatim>\<open>InvalidAccessError\<close>. RSAES-OAEP
  (RFC 8017, 7.1.1) takes a message of at most \<open>k - 2 * hLen - 2\<close> bytes, where \<open>k\<close> is
  the length of the modulus in bytes and \<open>hLen\<close> that of the hash; a longer message
  makes the operation fail, which is an \<^verbatim>\<open>OperationError\<close>. \<^verbatim>\<open>decrypt\<close> is alike, with
  the usage decrypt and a private key.
\<close>

fun hash_length :: "hash_name \<Rightarrow> nat" where
  "hash_length SHA_1 = 20"
| "hash_length SHA_256 = 32"
| "hash_length SHA_384 = 48"
| "hash_length SHA_512 = 64"

definition modulus_bytes :: "rsa_key_data \<Rightarrow> nat" where
  "modulus_bytes k = (modulus_bits k + 7) div 8"

definition subtle_encrypt ::
  "platform \<Rightarrow> algorithm_name \<Rightarrow> cryptokey \<Rightarrow> byte list \<Rightarrow> byte list js" where
  "subtle_encrypt P name key data_arg =
     js_bind (record_call EncryptCall) (\<lambda>_.
       if name \<noteq> alg_name key then js_throw (DOMException InvalidAccessError)
       else if Encrypt \<notin> set (usages key) then js_throw (DOMException InvalidAccessError)
       else if key_type key \<noteq> Public then js_throw (DOMException InvalidAccessError)
       else if modulus_bytes (key_data key) < length data_arg + 2 * hash_length (alg_hash key) + 2
       then js_throw (DOMException OperationError)
       else js_return (rsaes_oaep_encrypt P (key_data key) (alg_hash key) data_arg))"

definition subtle_decrypt ::
  "platform \<Rightarrow> algorithm_name \<Rightarrow> cryptokey \<Rightarrow> byte list \<Rightarrow> byte list js" where
  "subtle_decrypt P name key data_arg =
     js_bind (record_call DecryptCall) (\<lambda>_.
       if name \<noteq> alg_name key then js_throw (DOMException InvalidAccessError)
       else if Decrypt \<notin> set (usages key) then js_throw (DOMException InvalidAccessError)
       else if key_type key \<noteq> Private then js_throw (DOMException InvalidAccessError)
       else (case rsaes_oaep_decrypt P (key_data key) (alg_hash key) data_arg of
               None \<Rightarrow> js_throw (DOMException OperationError)
             | Some plain \<Rightarrow> js_return plain))"

section \<open>The library\<close>

text \<open>
  \<^verbatim>\<open>
  export async function createKeys() {
    return await window.crypto.subtle.generateKey(
      { name: "RSA-OAEP", modulusLength: 2048,
        publicExponent: new Uint8Array([1, 0, 1]), hash: "SHA-256" },
      true, ["encrypt", "decrypt"]);
  }
  \<close>
\<close>

definition createKeys :: "platform \<Rightarrow> keypair js" where
  "createKeys P = subtle_generateKey P RSA_OAEP 2048 [1, 0, 1] SHA_256 True [Encrypt, Decrypt]"

text \<open>
  \<^verbatim>\<open>
  export async function exportPublicKeyToBase64(publicKey) {
    const exported = await window.crypto.subtle.exportKey("spki", publicKey);
    const exportedAsString = ab2str(exported);
    return window.btoa(exportedAsString);
  }
  \<close>
  and the same for the private key with \<^verbatim>\<open>"pkcs8"\<close>.
\<close>

definition exportPublicKeyToBase64 :: "platform \<Rightarrow> cryptokey \<Rightarrow> jsstring js" where
  "exportPublicKeyToBase64 P publicKey_arg =
     js_bind (subtle_exportKey P Spki publicKey_arg) (\<lambda>exported.
       let exportedAsString = ab2str exported in
       js_lift (btoa exportedAsString))"

definition exportPrivateKeyToBase64 :: "platform \<Rightarrow> cryptokey \<Rightarrow> jsstring js" where
  "exportPrivateKeyToBase64 P privateKey_arg =
     js_bind (subtle_exportKey P Pkcs8 privateKey_arg) (\<lambda>exportedPrivateKey.
       let exportedPrivateKeyAsString = ab2str exportedPrivateKey in
       js_lift (btoa exportedPrivateKeyAsString))"

text \<open>
  \<^verbatim>\<open>
  export async function importPublicKey(pem) {
    const binaryDerString = window.atob(pem);
    const binaryDer = str2ab(binaryDerString);
    return await window.crypto.subtle.importKey(
      "spki", binaryDer, { name: "RSA-OAEP", hash: "SHA-256" }, true, ["encrypt"]);
  }
  \<close>
  and \<^verbatim>\<open>importPrivateKey\<close> with \<^verbatim>\<open>"pkcs8"\<close> and \<^verbatim>\<open>["decrypt"]\<close>.
\<close>

definition importPublicKey :: "platform \<Rightarrow> jsstring \<Rightarrow> cryptokey js" where
  "importPublicKey P pem =
     js_bind (js_lift (atob pem)) (\<lambda>binaryDerString.
       let binaryDer = str2ab binaryDerString in
       subtle_importKey P Spki binaryDer RSA_OAEP SHA_256 True [Encrypt])"

definition importPrivateKey :: "platform \<Rightarrow> jsstring \<Rightarrow> cryptokey js" where
  "importPrivateKey P pem =
     js_bind (js_lift (atob pem)) (\<lambda>binaryDerString.
       let binaryDer = str2ab binaryDerString in
       subtle_importKey P Pkcs8 binaryDer RSA_OAEP SHA_256 True [Decrypt])"

text \<open>
  \<^verbatim>\<open>
  export async function saveKeysToLocalStorage(keys) {
    try {
      const {privateKey, publicKey} = keys;
      const exportedPrivateKey = await exportPrivateKeyToBase64(privateKey);
      const exportedPublicKey = await exportPublicKeyToBase64(publicKey);
      const ttlSeconds = 3600; // 1 hour
      const expirationTimestamp = Date.now() + ttlSeconds * 1000;
      localStorage.setItem('privateKeyBase64', exportedPrivateKey);
      localStorage.setItem('publicKeyBase64', exportedPublicKey);
      localStorage.setItem('ttl', expirationTimestamp.toString());
    }
    catch (e) {
      console.error(e);
    }
  }
  \<close>
  The argument is \<open>None\<close> when the caller passes \<^verbatim>\<open>null\<close> or \<^verbatim>\<open>undefined\<close>, which the
  destructuring rejects with a \<^verbatim>\<open>TypeError\<close>. \<open>saveKeysToLocalStorage_try\<close> is the
  body of the \<^verbatim>\<open>try\<close> block.
\<close>

definition saveKeysToLocalStorage_try :: "platform \<Rightarrow> keypair option \<Rightarrow> unit js" where
  "saveKeysToLocalStorage_try P keys =
     js_bind (case keys of None \<Rightarrow> js_throw TypeError | Some kp \<Rightarrow> js_return kp) (\<lambda>kp.
     js_bind (exportPrivateKeyToBase64 P (privateKey kp)) (\<lambda>exportedPrivateKey.
     js_bind (exportPublicKeyToBase64 P (publicKey kp)) (\<lambda>exportedPublicKey.
     let ttlSeconds = 3600 in
     js_bind Date_now (\<lambda>now.
     let expirationTimestamp = now + ttlSeconds * 1000 in
     js_bind (setItem P ''privateKeyBase64'' exportedPrivateKey) (\<lambda>_.
     js_bind (setItem P ''publicKeyBase64'' exportedPublicKey) (\<lambda>_.
     setItem P ''ttl'' (Number_toString expirationTimestamp)))))))"

definition saveKeysToLocalStorage :: "platform \<Rightarrow> keypair option \<Rightarrow> unit js" where
  "saveKeysToLocalStorage P keys =
     js_catch (saveKeysToLocalStorage_try P keys) (\<lambda>e. console_error e)"

text \<open>
  \<^verbatim>\<open>
  export async function fetchKeysFromLocalStorage() {
    const privateKeyBase64 = localStorage.getItem('privateKeyBase64');
    if (privateKeyBase64 === null)
      throw new Error("private key not found");
    const publicKeyBase64 = localStorage.getItem('publicKeyBase64');
    if (publicKeyBase64 === null)
      throw new Error("public key not found");
    const keyExpiration = parseInt(localStorage.getItem('ttl'));
    if (Date.now() < keyExpiration) {
      return {privateKey: await importPrivateKey(privateKeyBase64), publicKey: publicKeyBase64};
    } else {
      throw new Error("keys expired");
    }
  }
  \<close>
\<close>

record fetched_keys =
  fetched_privateKey :: cryptokey
  fetched_publicKey :: jsstring

definition fetchKeysFromLocalStorage :: "platform \<Rightarrow> fetched_keys js" where
  "fetchKeysFromLocalStorage P =
     js_bind (getItem ''privateKeyBase64'') (\<lambda>privateKeyBase64.
     case privateKeyBase64 of
       None \<Rightarrow> js_throw (Error ''private key not found'')
     | Some privateKeyBase64 \<Rightarrow>
     js_bind (getItem ''publicKeyBase64'') (\<lambda>publicKeyBase64.
     case publicKeyBase64 of
       None \<Rightarrow> js_throw (Error ''public key not found'')
     | Some publicKeyBase64 \<Rightarrow>
     js_bind (getItem ''ttl'') (\<lambda>ttl.
     let keyExpiration = parseInt (ToString_nullable ttl) in
     js_bind Date_now (\<lambda>now.
     if number_less (Some now) keyExpiration
     then js_bind (importPrivateKey P privateKeyBase64) (\<lambda>imported.
            js_return \<lparr>fetched_privateKey = imported, fetched_publicKey = publicKeyBase64\<rparr>)
     else js_throw (Error ''keys expired'')))))"

text \<open>
  \<^verbatim>\<open>
  export async function encryptMessage(publicKeyBase64, message) {
    const publicKey = await importPublicKey(publicKeyBase64);
    return await window.crypto.subtle.encrypt(
      {name: "RSA-OAEP"}, publicKey, new TextEncoder().encode(message));
  }

  export async function decryptMessage(privateKey, encryptedMessage) {
    const decryptedMessage = await window.crypto.subtle.decrypt(
      { name: "RSA-OAEP" }, privateKey, encryptedMessage);
    return new TextDecoder().decode(decryptedMessage);
  }
  \<close>
\<close>

definition encryptMessage :: "platform \<Rightarrow> jsstring \<Rightarrow> jsstring \<Rightarrow> byte list js" where
  "encryptMessage P publicKeyBase64 message =
     js_bind (importPublicKey P publicKeyBase64) (\<lambda>publicKey_imported.
       subtle_encrypt P RSA_OAEP publicKey_imported (utf8_encode message))"

definition decryptMessage :: "platform \<Rightarrow> cryptokey \<Rightarrow> byte list \<Rightarrow> jsstring js" where
  "decryptMessage P privateKey_arg encryptedMessage =
     js_bind (subtle_decrypt P RSA_OAEP privateKey_arg encryptedMessage) (\<lambda>decryptedMessage.
       js_return (utf8_decode P decryptedMessage))"

text \<open>
  \<^verbatim>\<open>
  export function encodeEncryptedMessageAsBase64(encryptedMessage) {
    return window.btoa(ab2str(encryptedMessage));
  }

  export function decodeBase64EncryptedMessage(base64encodedMessage) {
    return str2ab(window.atob(base64encodedMessage));
  }
  \<close>
  These two read and write no state; what they can throw is what \<^verbatim>\<open>btoa\<close> and
  \<^verbatim>\<open>atob\<close> throw.
\<close>

definition encodeEncryptedMessageAsBase64 :: "byte list \<Rightarrow> error + jsstring" where
  "encodeEncryptedMessageAsBase64 encryptedMessage = btoa (ab2str encryptedMessage)"

definition decodeBase64EncryptedMessage :: "jsstring \<Rightarrow> error + byte list" where
  "decodeBase64EncryptedMessage base64encodedMessage =
     (case atob base64encodedMessage of
        Inl e \<Rightarrow> Inl e
      | Inr binaryString \<Rightarrow> Inr (str2ab binaryString))"

subsection \<open>A platform for evaluating the library on concrete inputs\<close>

text \<open>
  One 2048-bit key pair: the public key is the three bytes \<open>1, 2, 3\<close> as \<^verbatim>\<open>spki\<close>, the
  private key the bytes \<open>4, 5, 6\<close> as \<^verbatim>\<open>pkcs8\<close>, in Base64 \<^verbatim>\<open>AQID\<close> and \<^verbatim>\<open>BAUG\<close>.
  Encryption and decryption leave the bytes as they are, and the storage never refuses.
\<close>

definition test_public :: rsa_key_data where
  "test_public = \<lparr>modulus_bits = 2048, key_id = 1\<rparr>"

definition test_private :: rsa_key_data where
  "test_private = \<lparr>modulus_bits = 2048, key_id = 2\<rparr>"

definition test_platform :: platform where
  "test_platform =
     \<lparr>parse_spki = (\<lambda>der. if der = [1, 2, 3] then Some test_public else None),
      parse_pkcs8 = (\<lambda>der. if der = [4, 5, 6] then Some test_private else None),
      encode_spki = (\<lambda>k. [1, 2, 3]),
      encode_pkcs8 = (\<lambda>k. [4, 5, 6]),
      generate_rsa = (\<lambda>bits e. Some (test_public, test_private)),
      rsaes_oaep_encrypt = (\<lambda>k h m. m),
      rsaes_oaep_decrypt = (\<lambda>k h c. Some c),
      utf8_decode = (\<lambda>bs. fromCharCode (map unat bs)),
      storage_refuses = (\<lambda>st k v. False)\<rparr>"

definition empty_world :: world where
  "empty_world = \<lparr>localStorage = Map.empty, clock = 1000, console = [], subtle_calls = []\<rparr>"

text \<open>
  A state whose storage holds the two keys of the platform above, in Base64, and the
  given \<^verbatim>\<open>ttl\<close> entry, at the given time.
\<close>

definition test_world :: "jsstring option \<Rightarrow> int \<Rightarrow> world" where
  "test_world ttl now =
     \<lparr>localStorage =
        (\<lambda>k. if k = ''privateKeyBase64'' then Some (js ''BAUG'')
             else if k = ''publicKeyBase64'' then Some (js ''AQID'')
             else if k = ''ttl'' then ttl else None),
      clock = now, console = [], subtle_calls = []\<rparr>"

text \<open>The key pair that \<^verbatim>\<open>createKeys\<close> returns on this platform.\<close>

definition test_keys :: keypair where
  "test_keys =
     \<lparr>privateKey =
        \<lparr>key_type = Private, extractable = True, alg_name = RSA_OAEP, alg_hash = SHA_256,
         usages = [Decrypt], key_data = test_private\<rparr>,
      publicKey =
        \<lparr>key_type = Public, extractable = True, alg_name = RSA_OAEP, alg_hash = SHA_256,
         usages = [Encrypt], key_data = test_public\<rparr>\<rparr>"

section \<open>Properties of the codec and of Base64\<close>

lemma typed_set_length: "length (typed_set buf i v) = length buf"
  by (simp add: typed_set_def)

lemma str2ab_loop_length: "length (str2ab_loop str i n buf) = length buf"
proof (induction str i n buf rule: str2ab_loop.induct)
  case (1 str i strLen bufView)
  then show ?case
    by (subst str2ab_loop.simps) (simp add: typed_set_length)
qed

lemma str2ab_loop_nth:
  "n = length str \<Longrightarrow> length buf = n \<Longrightarrow> j < n \<Longrightarrow>
   str2ab_loop str i n buf ! j = (if i \<le> j then of_nat (unat (str ! j) mod 256) else buf ! j)"
proof (induction str i n buf rule: str2ab_loop.induct)
  case (1 str i strLen bufView)
  show ?case
  proof (cases "i < strLen")
    case True
    have step: "str2ab_loop str i strLen bufView
        = str2ab_loop str (Suc i) strLen (typed_set bufView i (charCodeAt str i))"
      using True by (subst str2ab_loop.simps) simp
    have ih: "str2ab_loop str (Suc i) strLen (typed_set bufView i (charCodeAt str i)) ! j
        = (if Suc i \<le> j then of_nat (unat (str ! j) mod 256)
           else typed_set bufView i (charCodeAt str i) ! j)"
      using 1 True by (simp add: typed_set_length)
    show ?thesis
    proof (cases "i = j")
      case True
      then show ?thesis using step ih 1(2,3,4)
        by (simp add: typed_set_def charCodeAt_def ToUint8_def)
    next
      case False
      then show ?thesis using step ih 1(2,3,4)
        by (auto simp: typed_set_def)
    qed
  next
    case False
    then show ?thesis using 1 by (subst str2ab_loop.simps) auto
  qed
qed

lemma str2ab_map: "str2ab str = map (\<lambda>c. of_nat (unat c mod 256)) str"
proof (rule nth_equalityI)
  show "length (str2ab str) = length (map (\<lambda>c. of_nat (unat c mod 256) :: byte) str)"
    by (simp add: str2ab_def str2ab_loop_length)
next
  fix i
  assume "i < length (str2ab str)"
  then have i: "i < length str" by (simp add: str2ab_def str2ab_loop_length)
  then show "str2ab str ! i = map (\<lambda>c. of_nat (unat c mod 256)) str ! i"
    by (simp add: str2ab_def str2ab_loop_nth)
qed

lemma unat_byte_less: "unat (b::byte) < 256"
  using unsigned_less[of b, where 'a=nat] by simp

lemma unat_code_unit_less: "unat (c::code_unit) < 65536"
  using unsigned_less[of c, where 'a=nat] by simp

lemma unat_b64_char:
  "n < 64 \<Longrightarrow> unat (b64_char n) =
     (if n < 26 then 65 + n else if n < 52 then 97 + (n - 26)
      else if n < 62 then 48 + (n - 52) else if n = 62 then 43 else 47)"
  by (simp add: b64_char_def unat_of_nat)

lemma b64_index_char: "n < 64 \<Longrightarrow> b64_index (b64_char n) = Some n"
  by (auto simp: b64_index_def unat_b64_char Let_def)

lemma b64_char_not_pad: "n < 64 \<Longrightarrow> b64_char n \<noteq> b64_pad"
proof
  assume n: "n < 64" and eq: "b64_char n = b64_pad"
  have "unat (b64_char n) = 61" using eq by (simp add: b64_pad_def)
  then show False using n by (simp add: unat_b64_char split: if_splits)
qed

lemma b64_char_not_whitespace: "n < 64 \<Longrightarrow> \<not> is_ascii_whitespace (b64_char n)"
  by (auto simp: is_ascii_whitespace_def unat_b64_char split: if_splits)

lemma b64_pad_not_whitespace: "\<not> is_ascii_whitespace b64_pad"
  by (simp add: is_ascii_whitespace_def b64_pad_def)

lemma div_mult_add: "y < m \<Longrightarrow> (x * m + y) div m = (x::nat)"
  by simp

lemma mod_mult_add: "y < m \<Longrightarrow> (x * m + y) mod m = (y::nat)"
  by simp

lemma byte_div16: "b < 256 \<Longrightarrow> b div 16 < (16::nat)"
  by (simp add: less_mult_imp_div_less)

lemma byte_div64: "c < 256 \<Longrightarrow> c div 64 < (4::nat)"
  by (simp add: less_mult_imp_div_less)

lemma sextet_mid1: "b < 256 \<Longrightarrow> a mod 4 * 16 + b div 16 < (64::nat)"
proof -
  assume "b < 256"
  then have "b div 16 < 16" by (rule byte_div16)
  moreover have "a mod 4 < 4" by simp
  ultimately show ?thesis by linarith
qed

lemma sextet_mid2: "c < 256 \<Longrightarrow> b mod 16 * 4 + c div 64 < (64::nat)"
proof -
  assume "c < 256"
  then have "c div 64 < 4" by (rule byte_div64)
  moreover have "b mod 16 < 16" by simp
  ultimately show ?thesis by linarith
qed

lemma sextet_first: "a < 256 \<Longrightarrow> a div 4 < (64::nat)"
  by (simp add: less_mult_imp_div_less)

lemma sextet_last1: "a mod 4 * 16 < (64::nat)"
proof -
  have "a mod 4 < 4" by simp
  then show ?thesis by linarith
qed

lemma sextet_last2: "b mod 16 * 4 < (64::nat)"
proof -
  have "b mod 16 < 16" by simp
  then show ?thesis by linarith
qed

lemma b64_sextets_bound:
  "\<forall>x\<in>set bytes. x < 256 \<Longrightarrow> \<forall>s\<in>set (b64_sextets bytes). s < 64"
  by (induction bytes rule: b64_sextets.induct)
     (simp_all add: sextet_first sextet_mid1 sextet_mid2 sextet_last1 sextet_last2)

lemma b64_octets_sextets:
  "\<forall>x\<in>set bytes. x < 256 \<Longrightarrow> b64_octets (b64_sextets bytes) = bytes"
proof (induction bytes rule: b64_sextets.induct)
  case 1
  then show ?case by simp
next
  case (2 a)
  then show ?case by simp
next
  case (3 a b)
  have b: "b div 16 < 16" using 3 by (simp add: byte_div16)
  have "(a mod 4 * 16 + b div 16) div 16 = a mod 4" using b by (rule div_mult_add)
  moreover have "(a mod 4 * 16 + b div 16) mod 16 = b div 16" using b by (rule mod_mult_add)
  ultimately show ?case by simp
next
  case (4 a b c bytes)
  have b: "b div 16 < 16" using 4(2) by (simp add: byte_div16)
  have c: "c div 64 < 4" using 4(2) by (simp add: byte_div64)
  have "(a mod 4 * 16 + b div 16) div 16 = a mod 4" using b by (rule div_mult_add)
  moreover have "(a mod 4 * 16 + b div 16) mod 16 = b div 16" using b by (rule mod_mult_add)
  moreover have "(b mod 16 * 4 + c div 64) div 4 = b mod 16" using c by (rule div_mult_add)
  moreover have "(b mod 16 * 4 + c div 64) mod 4 = c div 64" using c by (rule mod_mult_add)
  ultimately show ?case using 4 by simp
qed

lemma those_indices_chars:
  "\<forall>s\<in>set sextets. s < 64 \<Longrightarrow> those_indices (map b64_char sextets) = Some sextets"
  by (induction sextets) (simp_all add: b64_index_char)

lemma div3_step: "(3 + n) div 3 = Suc (n div 3)" "(3 + n) mod 3 = n mod (3::nat)"
  by simp_all

lemma length_b64_sextets:
  "length (b64_sextets bytes) =
     4 * (length bytes div 3) + (if length bytes mod 3 = 0 then 0 else length bytes mod 3 + 1)"
  by (induction bytes rule: b64_sextets.induct) (simp_all add: div3_step)

lemma length_b64_encode: "length (b64_encode bytes) mod 4 = 0"
proof -
  have "length bytes mod 3 = 0 \<or> length bytes mod 3 = 1 \<or> length bytes mod 3 = 2" by presburger
  then show ?thesis by (auto simp: b64_encode_def length_b64_sextets)
qed

lemma length_b64_sextets_mod: "length (b64_sextets bytes) mod 4 \<noteq> 1"
proof -
  have "length bytes mod 3 = 0 \<or> length bytes mod 3 = 1 \<or> length bytes mod 3 = 2" by presburger
  then show ?thesis by (auto simp: length_b64_sextets)
qed

lemma strip_padding_append:
  assumes "length (cs @ replicate k b64_pad) mod 4 = 0" "k \<le> 2"
    and "cs = [] \<or> last cs \<noteq> b64_pad"
  shows "strip_padding (cs @ replicate k b64_pad) = cs"
proof -
  consider "k = 0" | "k = 1" | "k = 2" using assms(2) by linarith
  then show ?thesis
  proof cases
    case 1
    then show ?thesis using assms by (auto simp: strip_padding_def butlast_append)
  next
    case 2
    then show ?thesis using assms by (auto simp: strip_padding_def butlast_append)
  next
    case 3
    then have r: "replicate k b64_pad = [b64_pad, b64_pad]" by (simp add: numeral_2_eq_2)
    show ?thesis using assms unfolding r by (auto simp: strip_padding_def butlast_append)
  qed
qed

lemma filter_b64_encode:
  "\<forall>x\<in>set bytes. x < 256 \<Longrightarrow>
   filter (\<lambda>c. \<not> is_ascii_whitespace c) (b64_encode bytes) = b64_encode bytes"
  using b64_sextets_bound[of bytes]
  by (auto simp: b64_encode_def filter_id_conv b64_char_not_whitespace b64_pad_not_whitespace)

lemma atob_b64_encode:
  assumes "\<forall>x\<in>set bytes. x < 256"
  shows "atob (b64_encode bytes) = Inr (fromCharCode bytes)"
proof -
  let ?cs = "map b64_char (b64_sextets bytes)"
  let ?k = "(3 - length bytes mod 3) mod 3"
  have b: "\<forall>s\<in>set (b64_sextets bytes). s < 64" using assms by (rule b64_sextets_bound)
  have last: "?cs = [] \<or> last ?cs \<noteq> b64_pad"
  proof (cases "b64_sextets bytes = []")
    case True then show ?thesis by simp
  next
    case False
    then have "last (b64_sextets bytes) \<in> set (b64_sextets bytes)" by simp
    then have "last (b64_sextets bytes) < 64" using b by blast
    then show ?thesis using False by (simp add: last_map b64_char_not_pad)
  qed
  have len: "length (?cs @ replicate ?k b64_pad) mod 4 = 0"
    using length_b64_encode[of bytes] by (simp add: b64_encode_def)
  have strip: "strip_padding (b64_encode bytes) = ?cs"
    unfolding b64_encode_def by (rule strip_padding_append[OF len _ last]) simp
  show ?thesis
    using length_b64_sextets_mod[of bytes]
    by (simp add: atob_def filter_b64_encode[OF assms] strip those_indices_chars[OF b]
        b64_octets_sextets[OF assms])
qed

lemma fromCharCode_unat: "fromCharCode (map unat (s::jsstring)) = s"
  using unat_code_unit_less by (simp add: fromCharCode_def map_idI)

lemma atob_btoa:
  assumes "\<forall>c\<in>set s. unat c \<le> 255"
  shows "btoa s = Inr (b64_encode (map unat s))" and "atob (b64_encode (map unat s)) = Inr s"
proof -
  show "btoa s = Inr (b64_encode (map unat s))"
    using assms by (auto simp: btoa_def list_ex_iff)
  have "\<forall>x\<in>set (map unat s). x < 256" using assms by auto
  then show "atob (b64_encode (map unat s)) = Inr s"
    by (simp add: atob_b64_encode fromCharCode_unat)
qed

lemma unat_ab2str: "map unat (ab2str buf) = map unat buf"
proof -
  have "unat (of_nat (unat b mod 65536) :: code_unit) = unat b" for b :: byte
    using unat_byte_less[of b] by (simp add: unat_of_nat del: of_nat_unat)
  then show ?thesis by (simp add: ab2str_def fromCharCode_def)
qed

lemma ab2str_latin1: "\<forall>c\<in>set (ab2str buf). unat c \<le> 255"
proof
  fix c
  assume "c \<in> set (ab2str buf)"
  then have "unat c \<in> set (map unat (ab2str buf))" by simp
  then obtain b where "unat c = unat b" and "b \<in> set buf"
    unfolding unat_ab2str by auto
  then show "unat c \<le> 255" using unat_byte_less[of b] by simp
qed

lemma str2ab_ab2str: "str2ab (ab2str buf) = buf"
proof -
  have "str2ab (ab2str buf) = map (\<lambda>n. of_nat (n mod 256)) (map unat (ab2str buf))"
    by (simp add: str2ab_map)
  also have "\<dots> = map (\<lambda>n. of_nat (n mod 256)) (map unat buf)"
    by (simp only: unat_ab2str)
  also have "\<dots> = buf"
    using unat_byte_less by (simp add: map_idI)
  finally show ?thesis .
qed

lemma btoa_ab2str: "btoa (ab2str buf) = Inr (b64_encode (map unat buf))"
  using atob_btoa(1)[OF ab2str_latin1, of buf] by (simp only: unat_ab2str)

lemma atob_encoded: "atob (b64_encode (map unat buf)) = Inr (ab2str buf)"
  using atob_btoa(2)[OF ab2str_latin1, of buf] by (simp only: unat_ab2str)

section \<open>Properties of the number conversions\<close>

lemma unat_digit_char: "d < 10 \<Longrightarrow> unat (digit_char d) = 48 + d"
  by (simp add: digit_char_def unat_of_nat del: of_nat_add)

lemma digit_of_decimal: "d < 10 \<Longrightarrow> digit_of (digit_char d) = Some d"
  by (simp add: digit_of_def unat_digit_char Let_def)

lemma radix_digit_decimal: "d < 10 \<Longrightarrow> radix_digit 10 (digit_char d)"
  by (simp add: radix_digit_def digit_of_decimal)

lemma decimal_not_space: "d < 10 \<Longrightarrow> \<not> is_StrWhiteSpaceChar (digit_char d)"
  by (simp add: is_StrWhiteSpaceChar_def unat_digit_char Let_def)

lemma decimal_not_sign:
  assumes "d < 10"
  shows "digit_char d \<noteq> 43" "digit_char d \<noteq> 45" "digit_char d \<noteq> 120" "digit_char d \<noteq> 88"
proof -
  have ne: "unat c \<noteq> unat e \<Longrightarrow> c \<noteq> e" for c e :: code_unit by auto
  show "digit_char d \<noteq> 43" using assms by (intro ne) (simp add: unat_digit_char)
  show "digit_char d \<noteq> 45" using assms by (intro ne) (simp add: unat_digit_char)
  show "digit_char d \<noteq> 120" using assms by (intro ne) (simp add: unat_digit_char)
  show "digit_char d \<noteq> 88" using assms by (intro ne) (simp add: unat_digit_char)
qed

lemma digits_value_append:
  "digits_value R acc (xs @ ys) = digits_value R (digits_value R acc xs) ys"
  by (induction xs arbitrary: acc) simp_all

lemma nat_digits_decimal: "c \<in> set (nat_digits n) \<Longrightarrow> \<exists>d<10. c = digit_char d"
proof (induction n rule: nat_digits.induct)
  case (1 n)
  show ?case
  proof (cases "n < 10")
    case True
    then have "c = digit_char n" using 1(2) by (subst (asm) nat_digits.simps) simp
    then show ?thesis using True by blast
  next
    case False
    then have "c \<in> set (nat_digits (n div 10)) \<or> c = digit_char (n mod 10)"
      using 1(2) by (subst (asm) nat_digits.simps) auto
    then show ?thesis
    proof
      assume "c \<in> set (nat_digits (n div 10))"
      then show ?thesis using 1(1) False by simp
    next
      assume c: "c = digit_char (n mod 10)"
      have "n mod 10 < 10" by simp
      then show ?thesis using c by blast
    qed
  qed
qed

lemma nat_digits_not_Nil: "nat_digits n \<noteq> []"
  by (subst nat_digits.simps) simp

lemma digits_value_nat_digits: "digits_value 10 0 (nat_digits n) = n"
proof (induction n rule: nat_digits.induct)
  case (1 n)
  show ?case
  proof (cases "n < 10")
    case True
    then show ?thesis by (subst nat_digits.simps) (simp add: digit_of_decimal)
  next
    case False
    have "n mod 10 < 10" by simp
    then have "digit_of (digit_char (n mod 10)) = Some (n mod 10)" by (rule digit_of_decimal)
    then show ?thesis using False 1
      by (subst nat_digits.simps) (simp add: digits_value_append)
  qed
qed

lemma takeWhile_nat_digits: "takeWhile (radix_digit 10) (nat_digits n) = nat_digits n"
proof -
  have "radix_digit 10 c" if "c \<in> set (nat_digits n)" for c
    using nat_digits_decimal[OF that] radix_digit_decimal by blast
  then show ?thesis by (simp add: takeWhile_eq_all_conv)
qed

lemma nat_digits_Cons: "\<exists>d cs. d < 10 \<and> nat_digits n = digit_char d # cs"
proof (cases "nat_digits n")
  case Nil
  then show ?thesis using nat_digits_not_Nil by blast
next
  case (Cons c cs)
  then have "c \<in> set (nat_digits n)" by simp
  then obtain d where "d < 10" "c = digit_char d" using nat_digits_decimal by blast
  then show ?thesis using Cons by blast
qed

lemma has_hex_prefix_x: "has_hex_prefix xs \<Longrightarrow> 120 \<in> set xs \<or> 88 \<in> set xs"
  by (induction xs rule: has_hex_prefix.induct) auto

lemma no_hex_prefix_nat_digits: "\<not> has_hex_prefix (nat_digits n)"
proof
  assume "has_hex_prefix (nat_digits n)"
  then have "120 \<in> set (nat_digits n) \<or> 88 \<in> set (nat_digits n)" by (rule has_hex_prefix_x)
  then obtain d where "d < 10" "digit_char d = 120 \<or> digit_char d = 88"
    using nat_digits_decimal by metis
  then show False using decimal_not_sign by blast
qed

lemma parseInt_decimal: "parseInt (nat_digits n) = Some (int n)"
proof -
  obtain d cs where d: "d < 10" and n: "nat_digits n = digit_char d # cs"
    using nat_digits_Cons by blast
  have ws: "dropWhile is_StrWhiteSpaceChar (nat_digits n) = nat_digits n"
    using decimal_not_space[OF d] by (simp add: n)
  have sign: "numeral_sign (nat_digits n) = 1"
    using decimal_not_sign[OF d] by (simp add: n)
  have strip: "strip_sign (nat_digits n) = nat_digits n"
    using decimal_not_sign[OF d] by (simp add: n)
  show ?thesis
    unfolding parseInt_def Let_def ws sign strip
    by (simp add: no_hex_prefix_nat_digits takeWhile_nat_digits digits_value_nat_digits
        nat_digits_not_Nil)
qed

lemma parseInt_negative: "parseInt (45 # nat_digits n) = Some (- int n)"
proof -
  have ws: "dropWhile is_StrWhiteSpaceChar (45 # nat_digits n) = 45 # nat_digits n"
    by (simp add: is_StrWhiteSpaceChar_def)
  have sign: "numeral_sign (45 # nat_digits n) = - 1" by simp
  have strip: "strip_sign (45 # nat_digits n) = nat_digits n" by simp
  show ?thesis
    unfolding parseInt_def Let_def ws sign strip
    by (simp add: no_hex_prefix_nat_digits takeWhile_nat_digits digits_value_nat_digits
        nat_digits_not_Nil)
qed

lemma parseInt_Number_toString: "parseInt (Number_toString n) = Some n"
  by (simp add: Number_toString_def parseInt_decimal parseInt_negative)

section \<open>Properties of the library functions\<close>

lemma normalize_usages_Encrypt: "normalize_usages [Encrypt] = [Encrypt]"
  by (simp add: normalize_usages_def)

lemma normalize_usages_Decrypt: "normalize_usages [Decrypt] = [Decrypt]"
  by (simp add: normalize_usages_def)

lemma subtle_exportKey_eq:
  "subtle_exportKey P format key w =
     (let w' = w\<lparr>subtle_calls := subtle_calls w @ [ExportKeyCall format]\<rparr> in
      if extractable key \<and> key_type key = (case format of Spki \<Rightarrow> Public | Pkcs8 \<Rightarrow> Private)
      then (Inr ((case format of Spki \<Rightarrow> encode_spki P | Pkcs8 \<Rightarrow> encode_pkcs8 P) (key_data key)), w')
      else (Inl (DOMException InvalidAccessError), w'))"
  by (cases format)
     (simp_all add: subtle_exportKey_def js_bind_def record_call_def js_throw_def js_return_def)

lemma exportPrivateKeyToBase64_eq:
  "exportPrivateKeyToBase64 P key w =
     (if extractable key \<and> key_type key = Private
      then Inr (b64_encode (map unat (encode_pkcs8 P (key_data key))))
      else Inl (DOMException InvalidAccessError),
      w\<lparr>subtle_calls := subtle_calls w @ [ExportKeyCall Pkcs8]\<rparr>)"
  by (simp add: exportPrivateKeyToBase64_def js_bind_def subtle_exportKey_eq js_lift_def
      btoa_ab2str Let_def)

lemma exportPublicKeyToBase64_eq:
  "exportPublicKeyToBase64 P key w =
     (if extractable key \<and> key_type key = Public
      then Inr (b64_encode (map unat (encode_spki P (key_data key))))
      else Inl (DOMException InvalidAccessError),
      w\<lparr>subtle_calls := subtle_calls w @ [ExportKeyCall Spki]\<rparr>)"
  by (simp add: exportPublicKeyToBase64_def js_bind_def subtle_exportKey_eq js_lift_def
      btoa_ab2str Let_def)

lemma subtle_importKey_Spki:
  "subtle_importKey P Spki der RSA_OAEP SHA_256 True [Encrypt] w =
     (case parse_spki P der of
        None \<Rightarrow> Inl (DOMException DataError)
      | Some k \<Rightarrow> Inr \<lparr>key_type = Public, extractable = True, alg_name = RSA_OAEP,
                      alg_hash = SHA_256, usages = [Encrypt], key_data = k\<rparr>,
      w\<lparr>subtle_calls := subtle_calls w @ [ImportKeyCall Spki]\<rparr>)"
  by (simp add: subtle_importKey_def js_bind_def record_call_def js_throw_def js_return_def
      normalize_usages_Encrypt split: option.split)

lemma subtle_importKey_Pkcs8:
  "subtle_importKey P Pkcs8 der RSA_OAEP SHA_256 True [Decrypt] w =
     (case parse_pkcs8 P der of
        None \<Rightarrow> Inl (DOMException DataError)
      | Some k \<Rightarrow> Inr \<lparr>key_type = Private, extractable = True, alg_name = RSA_OAEP,
                      alg_hash = SHA_256, usages = [Decrypt], key_data = k\<rparr>,
      w\<lparr>subtle_calls := subtle_calls w @ [ImportKeyCall Pkcs8]\<rparr>)"
  by (simp add: subtle_importKey_def js_bind_def record_call_def js_throw_def js_return_def
      normalize_usages_Decrypt split: option.split)

lemma importPublicKey_eq:
  "importPublicKey P pem w =
     (case atob pem of
        Inl e \<Rightarrow> (Inl e, w)
      | Inr binaryDerString \<Rightarrow>
          (case parse_spki P (str2ab binaryDerString) of
             None \<Rightarrow> Inl (DOMException DataError)
           | Some k \<Rightarrow> Inr \<lparr>key_type = Public, extractable = True, alg_name = RSA_OAEP,
                           alg_hash = SHA_256, usages = [Encrypt], key_data = k\<rparr>,
           w\<lparr>subtle_calls := subtle_calls w @ [ImportKeyCall Spki]\<rparr>))"
  by (simp add: importPublicKey_def js_bind_def js_lift_def subtle_importKey_Spki
      split: sum.split)

lemma importPrivateKey_eq:
  "importPrivateKey P pem w =
     (case atob pem of
        Inl e \<Rightarrow> (Inl e, w)
      | Inr binaryDerString \<Rightarrow>
          (case parse_pkcs8 P (str2ab binaryDerString) of
             None \<Rightarrow> Inl (DOMException DataError)
           | Some k \<Rightarrow> Inr \<lparr>key_type = Private, extractable = True, alg_name = RSA_OAEP,
                           alg_hash = SHA_256, usages = [Decrypt], key_data = k\<rparr>,
           w\<lparr>subtle_calls := subtle_calls w @ [ImportKeyCall Pkcs8]\<rparr>))"
  by (simp add: importPrivateKey_def js_bind_def js_lift_def subtle_importKey_Pkcs8
      split: sum.split)

lemma atob_error: "atob s = Inl e \<Longrightarrow> e = DOMException InvalidCharacterError"
  by (auto simp: atob_def Let_def split: if_splits option.splits)

lemma importPrivateKey_error:
  "fst (importPrivateKey P pem w) = Inl e \<Longrightarrow> \<exists>n. e = DOMException n"
  by (auto simp: importPrivateKey_eq split: sum.splits option.splits dest: atob_error)

lemma importPublicKey_error:
  "fst (importPublicKey P pem w) = Inl e \<Longrightarrow> \<exists>n. e = DOMException n"
  by (auto simp: importPublicKey_eq split: sum.splits option.splits dest: atob_error)

lemma importPrivateKey_storage: "localStorage (snd (importPrivateKey P pem w)) = localStorage w"
  by (simp add: importPrivateKey_eq split: sum.split)

lemma importPublicKey_storage: "localStorage (snd (importPublicKey P pem w)) = localStorage w"
  by (simp add: importPublicKey_eq split: sum.split)

lemma fetchKeysFromLocalStorage_eq:
  "fetchKeysFromLocalStorage P w =
     (case localStorage w ''privateKeyBase64'' of
        None \<Rightarrow> (Inl (Error ''private key not found''), w)
      | Some privateKeyBase64 \<Rightarrow>
          (case localStorage w ''publicKeyBase64'' of
             None \<Rightarrow> (Inl (Error ''public key not found''), w)
           | Some publicKeyBase64 \<Rightarrow>
               if number_less (Some (clock w))
                    (parseInt (ToString_nullable (localStorage w ''ttl'')))
               then (case importPrivateKey P privateKeyBase64 w of
                       (Inl e, w') \<Rightarrow> (Inl e, w')
                     | (Inr imported, w') \<Rightarrow>
                         (Inr \<lparr>fetched_privateKey = imported,
                               fetched_publicKey = publicKeyBase64\<rparr>, w'))
               else (Inl (Error ''keys expired''), w)))"
  by (simp add: fetchKeysFromLocalStorage_def js_bind_def getItem_def js_throw_def
      Date_now_def js_return_def Let_def split: option.split prod.split sum.split)

lemma parseInt_null: "parseInt (ToString_nullable None) = None"
  by (simp add: ToString_nullable_def js_def parseInt_def is_StrWhiteSpaceChar_def
      radix_digit_def digit_of_def Let_def)

lemma js_catch_console_error: "fst (js_catch m (\<lambda>e. console_error e) w) = Inr ()"
  by (simp add: js_catch_def console_error_def split: prod.split sum.split)

lemma saveKeysToLocalStorage_failed:
  "saveKeysToLocalStorage_try P keys w = (Inl e, w') \<Longrightarrow>
   saveKeysToLocalStorage P keys w = (Inr (), w'\<lparr>console := console w' @ [e]\<rparr>)"
  by (simp add: saveKeysToLocalStorage_def js_catch_def console_error_def)

lemma saveKeysToLocalStorage_succeeded:
  "saveKeysToLocalStorage_try P keys w = (Inr (), w') \<Longrightarrow>
   saveKeysToLocalStorage P keys w = (Inr (), w')"
  by (simp add: saveKeysToLocalStorage_def js_catch_def)

lemma save_try_private_fails:
  assumes "fst (exportPrivateKeyToBase64 P (privateKey kp) w) = Inl e"
  shows "saveKeysToLocalStorage_try P (Some kp) w =
           (Inl e, snd (exportPrivateKeyToBase64 P (privateKey kp) w))"
  using assms
  by (cases "exportPrivateKeyToBase64 P (privateKey kp) w")
     (simp add: saveKeysToLocalStorage_try_def js_bind_def js_return_def)

lemma save_try_public_fails:
  assumes "exportPrivateKeyToBase64 P (privateKey kp) w = (Inr x, w1)"
    and "fst (exportPublicKeyToBase64 P (publicKey kp) w1) = Inl e"
  shows "saveKeysToLocalStorage_try P (Some kp) w =
           (Inl e, snd (exportPublicKeyToBase64 P (publicKey kp) w1))"
  using assms
  by (cases "exportPublicKeyToBase64 P (publicKey kp) w1")
     (simp add: saveKeysToLocalStorage_try_def js_bind_def js_return_def)

lemma exportPrivateKeyToBase64_frame:
  "localStorage (snd (exportPrivateKeyToBase64 P key w)) = localStorage w"
  "console (snd (exportPrivateKeyToBase64 P key w)) = console w"
  "clock (snd (exportPrivateKeyToBase64 P key w)) = clock w"
  by (simp_all add: exportPrivateKeyToBase64_eq)

lemma exportPublicKeyToBase64_frame:
  "localStorage (snd (exportPublicKeyToBase64 P key w)) = localStorage w"
  "console (snd (exportPublicKeyToBase64 P key w)) = console w"
  "clock (snd (exportPublicKeyToBase64 P key w)) = clock w"
  by (simp_all add: exportPublicKeyToBase64_eq)

lemma saveKeysToLocalStorage_try_None:
  "saveKeysToLocalStorage_try P None w = (Inl TypeError, w)"
  by (simp add: saveKeysToLocalStorage_try_def js_bind_def js_throw_def)

lemma saveKeysToLocalStorage_try_Some:
  "saveKeysToLocalStorage_try P (Some kp) w =
     (let w1 = w\<lparr>subtle_calls := subtle_calls w @ [ExportKeyCall Pkcs8]\<rparr>;
          w2 = w\<lparr>subtle_calls := subtle_calls w @ [ExportKeyCall Pkcs8, ExportKeyCall Spki]\<rparr>;
          exportedPrivateKey = b64_encode (map unat (encode_pkcs8 P (key_data (privateKey kp))));
          exportedPublicKey = b64_encode (map unat (encode_spki P (key_data (publicKey kp))));
          ttl = Number_toString (clock w + 3600000);
          s1 = (localStorage w)(''privateKeyBase64'' \<mapsto> exportedPrivateKey);
          s2 = s1(''publicKeyBase64'' \<mapsto> exportedPublicKey);
          s3 = s2(''ttl'' \<mapsto> ttl)
      in if \<not> (extractable (privateKey kp) \<and> key_type (privateKey kp) = Private)
         then (Inl (DOMException InvalidAccessError), w1)
         else if \<not> (extractable (publicKey kp) \<and> key_type (publicKey kp) = Public)
         then (Inl (DOMException InvalidAccessError), w2)
         else if storage_refuses P (localStorage w) ''privateKeyBase64'' exportedPrivateKey
         then (Inl (DOMException QuotaExceededError), w2)
         else if storage_refuses P s1 ''publicKeyBase64'' exportedPublicKey
         then (Inl (DOMException QuotaExceededError), w2\<lparr>localStorage := s1\<rparr>)
         else if storage_refuses P s2 ''ttl'' ttl
         then (Inl (DOMException QuotaExceededError), w2\<lparr>localStorage := s2\<rparr>)
         else (Inr (), w2\<lparr>localStorage := s3\<rparr>))"
  by (simp add: saveKeysToLocalStorage_try_def js_bind_def js_return_def
      exportPrivateKeyToBase64_eq exportPublicKeyToBase64_eq Date_now_def setItem_def Let_def)

lemma createKeys_storage: "localStorage (snd (createKeys P w)) = localStorage w"
  by (simp add: createKeys_def subtle_generateKey_def js_bind_def record_call_def
      js_throw_def js_return_def split: option.split prod.split)

lemma fetchKeysFromLocalStorage_storage:
  "localStorage (snd (fetchKeysFromLocalStorage P w)) = localStorage w"
proof -
  have "localStorage (snd (case importPrivateKey P p w of
            (Inl e, w') \<Rightarrow> (Inl e, w')
          | (Inr imported, w') \<Rightarrow>
              (Inr \<lparr>fetched_privateKey = imported, fetched_publicKey = q\<rparr>, w')))
        = localStorage w" for p q
    using importPrivateKey_storage[of P p w]
    by (cases "importPrivateKey P p w") (auto split: sum.split)
  then show ?thesis
    by (simp add: fetchKeysFromLocalStorage_eq split: option.split)
qed

lemma encryptMessage_eq:
  "encryptMessage P publicKeyBase64 message w =
     (case atob publicKeyBase64 of
        Inl e \<Rightarrow> (Inl e, w)
      | Inr binaryDerString \<Rightarrow>
          (case parse_spki P (str2ab binaryDerString) of
             None \<Rightarrow>
               (Inl (DOMException DataError),
                w\<lparr>subtle_calls := subtle_calls w @ [ImportKeyCall Spki]\<rparr>)
           | Some k \<Rightarrow>
               (if modulus_bytes k < length (utf8_encode message) + 2 * hash_length SHA_256 + 2
                then Inl (DOMException OperationError)
                else Inr (rsaes_oaep_encrypt P k SHA_256 (utf8_encode message)),
                w\<lparr>subtle_calls := subtle_calls w @ [ImportKeyCall Spki, EncryptCall]\<rparr>)))"
proof (cases "atob publicKeyBase64")
  case (Inl e)
  then show ?thesis by (simp add: encryptMessage_def js_bind_def importPublicKey_eq)
next
  case (Inr binaryDerString)
  show ?thesis
  proof (cases "parse_spki P (str2ab binaryDerString)")
    case None
    then show ?thesis using Inr by (simp add: encryptMessage_def js_bind_def importPublicKey_eq)
  next
    case (Some k)
    then show ?thesis using Inr
      by (simp add: encryptMessage_def js_bind_def importPublicKey_eq subtle_encrypt_def
          record_call_def js_throw_def js_return_def)
  qed
qed

lemma encryptMessage_storage:
  "localStorage (snd (encryptMessage P publicKeyBase64 message w)) = localStorage w"
  by (simp add: encryptMessage_eq split: sum.split option.split)

lemma decryptMessage_storage:
  "localStorage (snd (decryptMessage P key encryptedMessage w)) = localStorage w"
  by (simp add: decryptMessage_def subtle_decrypt_def js_bind_def record_call_def
      js_throw_def js_return_def split: option.split)

lemma exportKeys_storage:
  "localStorage (snd (exportPublicKeyToBase64 P key w)) = localStorage w"
  "localStorage (snd (exportPrivateKeyToBase64 P key w)) = localStorage w"
  by (simp_all add: exportPublicKeyToBase64_eq exportPrivateKeyToBase64_eq)

lemma utf8_encode_ascii:
  "unat c < 128 \<Longrightarrow> utf8_encode (c # cs) = of_nat (unat c) # utf8_encode cs"
  by (cases cs)
     (simp_all add: utf8_bytes_def scalar_value_def is_high_surrogate_def is_low_surrogate_def)

lemma utf8_encode_replicate_ascii:
  "unat c < 128 \<Longrightarrow> utf8_encode (replicate n c) = replicate n (of_nat (unat c))"
  by (induction n) (simp_all add: utf8_encode_ascii)

subsection \<open>Evaluation at concrete inputs\<close>

lemma b64_encode_456: "b64_encode (map unat [4, 5, 6 :: byte]) = js ''BAUG''"
  by (simp add: b64_encode_def b64_char_def js_def)

lemma b64_encode_123: "b64_encode (map unat [1, 2, 3 :: byte]) = js ''AQID''"
  by (simp add: b64_encode_def b64_char_def js_def)

lemma Number_toString_3601000: "Number_toString 3601000 = js ''3601000''"
  by (simp add: Number_toString_def nat_digits.simps digit_char_def js_def)

lemma atob_BAUG: "atob (js ''BAUG'') = Inr [4, 5, 6]"
  by (simp add: atob_def js_def is_ascii_whitespace_def strip_padding_def b64_pad_def
      b64_index_def fromCharCode_def Let_def)

lemma atob_AQID: "atob (js ''AQID'') = Inr [1, 2, 3]"
  by (simp add: atob_def js_def is_ascii_whitespace_def strip_padding_def b64_pad_def
      b64_index_def fromCharCode_def Let_def)

lemma str2ab_456: "str2ab [4, 5, 6] = [4, 5, 6]"
  by (simp add: str2ab_map)

lemma str2ab_123: "str2ab [1, 2, 3] = [1, 2, 3]"
  by (simp add: str2ab_map)

lemma parseInt_3601000: "parseInt (js ''3601000'') = Some 3601000"
  by (simp add: js_def parseInt_def is_StrWhiteSpaceChar_def radix_digit_def digit_of_def Let_def)

lemma parseInt_soon: "parseInt (js ''soon'') = None"
  by (simp add: js_def parseInt_def is_StrWhiteSpaceChar_def radix_digit_def digit_of_def Let_def)

lemma test_platform_spki:
  "atob (js ''AQID'') = Inr [1, 2, 3]"
  "parse_spki test_platform (str2ab [1, 2, 3]) = Some test_public"
  "modulus_bits test_public = 2048"
  by (simp_all add: atob_AQID str2ab_123 test_platform_def test_public_def)

lemma utf8_encode_a: "utf8_encode (replicate n 97) = replicate n 97"
  using utf8_encode_replicate_ascii [of 97 n] by simp

section \<open>The claims about the codec\<close>

text \<open>
  Claim C10. \<^verbatim>\<open>str2ab\<close> is total on every string: the model has no failing branch, the
  buffer it returns has the length of the string, and byte \<open>i\<close> is the code unit at
  \<open>i\<close> reduced modulo 256, so that code units above 255 wrap around and are not
  rejected.
\<close>

theorem str2ab_total_mod_256:
  "length (str2ab str) = length str
   \<and> map unat (str2ab str) = map (\<lambda>c. unat c mod 256) str"
  by (simp add: str2ab_map unat_of_nat)

text \<open>
  Claim C4. For every byte sequence \<open>b\<close> (the elements of a \<^verbatim>\<open>Uint8Array\<close> are below 256
  by their type), \<^verbatim>\<open>str2ab(ab2str(b))\<close> is \<open>b\<close>: same length, same bytes.
\<close>

theorem codec_round_trip: "str2ab (ab2str b) = b"
  by (rule str2ab_ab2str)

text \<open>
  Claim C8. For every ciphertext buffer \<open>c\<close>, \<^verbatim>\<open>encodeEncryptedMessageAsBase64\<close>
  returns its Base64 text, and \<^verbatim>\<open>decodeBase64EncryptedMessage\<close> of that text returns
  \<open>c\<close>.
\<close>

theorem ciphertext_base64_round_trip:
  "encodeEncryptedMessageAsBase64 c = Inr (b64_encode (map unat c))
   \<and> decodeBase64EncryptedMessage (b64_encode (map unat c)) = Inr c"
  by (simp add: encodeEncryptedMessageAsBase64_def decodeBase64EncryptedMessage_def
      btoa_ab2str atob_encoded str2ab_ab2str)

section \<open>The claims about the key store\<close>

text \<open>
  Claim C3. \<^verbatim>\<open>fetchKeysFromLocalStorage\<close> throws an \<^verbatim>\<open>Error\<close> with the message
  "private key not found" whenever the private-key field is absent, and with the
  message "public key not found" whenever the private-key field is present and the
  public-key field is absent. The private-key field is read first: on an empty store
  the missing private key is reported.
\<close>

theorem fetch_missing_fields:
  "(localStorage w ''privateKeyBase64'' = None \<longrightarrow>
      fetchKeysFromLocalStorage P w = (Inl (Error ''private key not found''), w))
   \<and> (localStorage w ''privateKeyBase64'' \<noteq> None \<and> localStorage w ''publicKeyBase64'' = None \<longrightarrow>
      fetchKeysFromLocalStorage P w = (Inl (Error ''public key not found''), w))
   \<and> fetchKeysFromLocalStorage P (w\<lparr>localStorage := Map.empty\<rparr>)
       = (Inl (Error ''private key not found''), w\<lparr>localStorage := Map.empty\<rparr>)"
  by (auto simp: fetchKeysFromLocalStorage_eq split: option.split)

theorem fetch_missing_fields_witness:
  "fetchKeysFromLocalStorage test_platform empty_world
     = (Inl (Error ''private key not found''), empty_world)
   \<and> fetchKeysFromLocalStorage test_platform
       (empty_world\<lparr>localStorage := [''privateKeyBase64'' \<mapsto> js ''BAUG'']\<rparr>)
     = (Inl (Error ''public key not found''),
        empty_world\<lparr>localStorage := [''privateKeyBase64'' \<mapsto> js ''BAUG'']\<rparr>)"
  using fetch_missing_fields [of empty_world test_platform]
    fetch_missing_fields
      [of "empty_world\<lparr>localStorage := [''privateKeyBase64'' \<mapsto> js ''BAUG'']\<rparr>" test_platform]
  by (simp add: empty_world_def)

text \<open>
  Claim C9. When both key fields are present and the \<^verbatim>\<open>ttl\<close> field is absent or
  \<^verbatim>\<open>parseInt\<close> of it is \<^verbatim>\<open>NaN\<close>, the comparison with the clock is false and
  \<^verbatim>\<open>fetchKeysFromLocalStorage\<close> throws "keys expired", not one of the two "not found"
  errors.
\<close>

theorem fetch_unparsable_ttl_expired:
  assumes "localStorage w ''privateKeyBase64'' = Some p"
    and "localStorage w ''publicKeyBase64'' = Some q"
    and "localStorage w ''ttl'' = None
         \<or> parseInt (ToString_nullable (localStorage w ''ttl'')) = None"
  shows "fetchKeysFromLocalStorage P w = (Inl (Error ''keys expired''), w)"
proof -
  have "parseInt (ToString_nullable (localStorage w ''ttl'')) = None"
    using assms(3) parseInt_null by auto
  then show ?thesis
    using assms(1,2) by (simp add: fetchKeysFromLocalStorage_eq number_less_def)
qed

theorem fetch_unparsable_ttl_expired_witness:
  "fetchKeysFromLocalStorage test_platform (test_world None 1000)
     = (Inl (Error ''keys expired''), test_world None 1000)
   \<and> fetchKeysFromLocalStorage test_platform (test_world (Some (js ''soon'')) 1000)
     = (Inl (Error ''keys expired''), test_world (Some (js ''soon'')) 1000)"
proof
  have "localStorage (test_world None 1000) ''ttl'' = None
        \<or> parseInt (ToString_nullable (localStorage (test_world None 1000) ''ttl'')) = None"
    by (simp add: test_world_def)
  then show "fetchKeysFromLocalStorage test_platform (test_world None 1000)
     = (Inl (Error ''keys expired''), test_world None 1000)"
    by (rule fetch_unparsable_ttl_expired [rotated 2]) (simp_all add: test_world_def)
next
  have "localStorage (test_world (Some (js ''soon'')) 1000) ''ttl'' = None
        \<or> parseInt (ToString_nullable (localStorage (test_world (Some (js ''soon'')) 1000) ''ttl''))
            = None"
    by (simp add: test_world_def ToString_nullable_def parseInt_soon)
  then show "fetchKeysFromLocalStorage test_platform (test_world (Some (js ''soon'')) 1000)
     = (Inl (Error ''keys expired''), test_world (Some (js ''soon'')) 1000)"
    by (rule fetch_unparsable_ttl_expired [rotated 2]) (simp_all add: test_world_def)
qed

text \<open>
  Claim C1. For a stored record with both key fields present whose \<^verbatim>\<open>ttl\<close> field reads
  as the integer \<open>expiresAtMillis\<close>: \<^verbatim>\<open>fetchKeysFromLocalStorage\<close> throws "keys expired"
  exactly when the clock is at or past \<open>expiresAtMillis\<close>, in particular at the expiry
  instant itself. When the clock is strictly before it, the function goes on to import
  the private key and never reports expiry; with the private-key field holding the
  Base64 text of a PKCS8 key, as a stored record does, it succeeds, returning the
  imported private key and the public key as text.
\<close>

theorem fetch_expired_iff:
  assumes "localStorage w ''privateKeyBase64'' = Some p"
    and "localStorage w ''publicKeyBase64'' = Some q"
    and "localStorage w ''ttl'' = Some t"
    and "parseInt t = Some expiresAtMillis"
  shows "(fst (fetchKeysFromLocalStorage P w) = Inl (Error ''keys expired'')
            \<longleftrightarrow> expiresAtMillis \<le> clock w)
       \<and> (expiresAtMillis \<le> clock w \<longrightarrow>
            fetchKeysFromLocalStorage P w = (Inl (Error ''keys expired''), w))
       \<and> (clock w < expiresAtMillis \<longrightarrow>
            fetchKeysFromLocalStorage P w =
              js_bind (importPrivateKey P p)
                (\<lambda>imported. js_return
                   \<lparr>fetched_privateKey = imported, fetched_publicKey = q\<rparr>) w)
       \<and> (clock w < expiresAtMillis \<and> atob p = Inr der \<and> parse_pkcs8 P (str2ab der) = Some k \<longrightarrow>
            fst (fetchKeysFromLocalStorage P w) =
              Inr \<lparr>fetched_privateKey =
                     \<lparr>key_type = Private, extractable = True, alg_name = RSA_OAEP,
                      alg_hash = SHA_256, usages = [Decrypt], key_data = k\<rparr>,
                   fetched_publicKey = q\<rparr>)"
proof -
  have less: "number_less (Some (clock w)) (parseInt (ToString_nullable (localStorage w ''ttl'')))
      \<longleftrightarrow> clock w < expiresAtMillis"
    using assms(3,4) by (simp add: number_less_def ToString_nullable_def)
  have eq: "fetchKeysFromLocalStorage P w =
      (if clock w < expiresAtMillis
       then js_bind (importPrivateKey P p)
              (\<lambda>imported. js_return
                 \<lparr>fetched_privateKey = imported, fetched_publicKey = q\<rparr>) w
       else (Inl (Error ''keys expired''), w))"
    using assms(1,2) less
    by (simp add: fetchKeysFromLocalStorage_eq js_bind_def js_return_def
        split: prod.split sum.split)
  have no_expired: "fst (js_bind (importPrivateKey P p)
              (\<lambda>imported. js_return
                 \<lparr>fetched_privateKey = imported, fetched_publicKey = q\<rparr>) w)
        \<noteq> Inl (Error ''keys expired'')"
  proof
    assume a: "fst (js_bind (importPrivateKey P p)
              (\<lambda>imported. js_return
                 \<lparr>fetched_privateKey = imported, fetched_publicKey = q\<rparr>) w)
        = Inl (Error ''keys expired'')"
    then have "fst (importPrivateKey P p w) = Inl (Error ''keys expired'')"
      by (auto simp: js_bind_def js_return_def split: prod.splits sum.splits)
    then show False using importPrivateKey_error by blast
  qed
  have ok: "fst (js_bind (importPrivateKey P p)
              (\<lambda>imported. js_return
                 \<lparr>fetched_privateKey = imported, fetched_publicKey = q\<rparr>) w)
        = Inr \<lparr>fetched_privateKey =
                     \<lparr>key_type = Private, extractable = True, alg_name = RSA_OAEP,
                      alg_hash = SHA_256, usages = [Decrypt], key_data = k\<rparr>,
                   fetched_publicKey = q\<rparr>"
    if "atob p = Inr der" "parse_pkcs8 P (str2ab der) = Some k"
    using that by (simp add: js_bind_def js_return_def importPrivateKey_eq)
  show ?thesis
    using eq no_expired ok by auto
qed

theorem fetch_expired_iff_witness:
  "fst (fetchKeysFromLocalStorage test_platform (test_world (Some (js ''3601000'')) 3601000))
     = Inl (Error ''keys expired'')
   \<and> fst (fetchKeysFromLocalStorage test_platform (test_world (Some (js ''3601000'')) 3600999))
     = Inr \<lparr>fetched_privateKey =
              \<lparr>key_type = Private, extractable = True, alg_name = RSA_OAEP,
               alg_hash = SHA_256, usages = [Decrypt], key_data = test_private\<rparr>,
            fetched_publicKey = js ''AQID''\<rparr>"
proof -
  have p: "localStorage (test_world (Some (js ''3601000'')) now) ''privateKeyBase64''
      = Some (js ''BAUG'')" for now
    by (simp add: test_world_def)
  have q: "localStorage (test_world (Some (js ''3601000'')) now) ''publicKeyBase64''
      = Some (js ''AQID'')" for now
    by (simp add: test_world_def)
  have t: "localStorage (test_world (Some (js ''3601000'')) now) ''ttl''
      = Some (js ''3601000'')" for now
    by (simp add: test_world_def)
  have k: "parse_pkcs8 test_platform (str2ab [4, 5, 6]) = Some test_private"
    by (simp add: test_platform_def str2ab_456)
  have c: "clock (test_world x now) = now" for x now
    by (simp add: test_world_def)
  have "expired": "fst (fetchKeysFromLocalStorage test_platform
        (test_world (Some (js ''3601000'')) 3601000)) = Inl (Error ''keys expired'')"
    using fetch_expired_iff [OF p [of 3601000] q [of 3601000] t [of 3601000] parseInt_3601000,
      where P = test_platform, THEN conjunct1]
    by (simp add: c)
  have valid: "fst (fetchKeysFromLocalStorage test_platform
        (test_world (Some (js ''3601000'')) 3600999)) =
      Inr \<lparr>fetched_privateKey =
              \<lparr>key_type = Private, extractable = True, alg_name = RSA_OAEP,
               alg_hash = SHA_256, usages = [Decrypt], key_data = test_private\<rparr>,
            fetched_publicKey = js ''AQID''\<rparr>"
    using fetch_expired_iff [OF p [of 3600999] q [of 3600999] t [of 3600999] parseInt_3601000,
      where P = test_platform and der = "[4, 5, 6]" and k = test_private,
      THEN conjunct2, THEN conjunct2, THEN conjunct2]
      atob_BAUG k
    by (simp add: c)
  show ?thesis
    using "expired" valid by (rule conjI)
qed

text \<open>
  Claim C5. \<^verbatim>\<open>saveKeysToLocalStorage\<close> never propagates an error: whatever the keys and
  the state, it returns normally. When the export of the private key fails, or the
  export of the public key fails after that of the private key succeeded, the error is
  written with \<^verbatim>\<open>console.error\<close> and the storage is left as it was: both exports come
  before the first write.
\<close>

theorem save_never_propagates:
  "fst (saveKeysToLocalStorage P keys w) = Inr ()
   \<and> (fst (exportPrivateKeyToBase64 P (privateKey kp) w) = Inl e \<longrightarrow>
        localStorage (snd (saveKeysToLocalStorage P (Some kp) w)) = localStorage w
        \<and> console (snd (saveKeysToLocalStorage P (Some kp) w)) = console w @ [e])
   \<and> (exportPrivateKeyToBase64 P (privateKey kp) w = (Inr x, w1)
        \<and> fst (exportPublicKeyToBase64 P (publicKey kp) w1) = Inl e \<longrightarrow>
        localStorage (snd (saveKeysToLocalStorage P (Some kp) w)) = localStorage w
        \<and> console (snd (saveKeysToLocalStorage P (Some kp) w)) = console w @ [e])"
proof (intro conjI impI)
  show "fst (saveKeysToLocalStorage P keys w) = Inr ()"
    unfolding saveKeysToLocalStorage_def by (rule js_catch_console_error)
next
  assume a: "fst (exportPrivateKeyToBase64 P (privateKey kp) w) = Inl e"
  note s = saveKeysToLocalStorage_failed [OF save_try_private_fails [OF a]]
  show "localStorage (snd (saveKeysToLocalStorage P (Some kp) w)) = localStorage w"
    by (simp add: s exportPrivateKeyToBase64_frame)
  show "console (snd (saveKeysToLocalStorage P (Some kp) w)) = console w @ [e]"
    by (simp add: s exportPrivateKeyToBase64_frame)
next
  assume a: "exportPrivateKeyToBase64 P (privateKey kp) w = (Inr x, w1)
        \<and> fst (exportPublicKeyToBase64 P (publicKey kp) w1) = Inl e"
  then have w1: "w1 = snd (exportPrivateKeyToBase64 P (privateKey kp) w)" by simp
  note s = saveKeysToLocalStorage_failed [OF save_try_public_fails [OF a [THEN conjunct1] a [THEN conjunct2]]]
  show "localStorage (snd (saveKeysToLocalStorage P (Some kp) w)) = localStorage w"
    by (simp add: s exportPublicKeyToBase64_frame w1 exportPrivateKeyToBase64_frame)
  show "console (snd (saveKeysToLocalStorage P (Some kp) w)) = console w @ [e]"
    by (simp add: s exportPublicKeyToBase64_frame w1 exportPrivateKeyToBase64_frame)
qed

theorem save_never_propagates_witness:
  "fst (saveKeysToLocalStorage test_platform
          (Some (test_keys\<lparr>privateKey := (privateKey test_keys)\<lparr>extractable := False\<rparr>\<rparr>))
          empty_world) = Inr ()
   \<and> localStorage (snd (saveKeysToLocalStorage test_platform
          (Some (test_keys\<lparr>privateKey := (privateKey test_keys)\<lparr>extractable := False\<rparr>\<rparr>))
          empty_world)) = Map.empty
   \<and> console (snd (saveKeysToLocalStorage test_platform
          (Some (test_keys\<lparr>privateKey := (privateKey test_keys)\<lparr>extractable := False\<rparr>\<rparr>))
          empty_world)) = [DOMException InvalidAccessError]
   \<and> localStorage (snd (saveKeysToLocalStorage test_platform
          (Some (test_keys\<lparr>publicKey := privateKey test_keys\<rparr>)) empty_world)) = Map.empty
   \<and> console (snd (saveKeysToLocalStorage test_platform
          (Some (test_keys\<lparr>publicKey := privateKey test_keys\<rparr>)) empty_world))
       = [DOMException InvalidAccessError]"
proof -
  let ?kp1 = "test_keys\<lparr>privateKey := (privateKey test_keys)\<lparr>extractable := False\<rparr>\<rparr>"
  let ?kp2 = "test_keys\<lparr>publicKey := privateKey test_keys\<rparr>"
  let ?w1 = "empty_world\<lparr>subtle_calls := subtle_calls empty_world @ [ExportKeyCall Pkcs8]\<rparr>"
  have private_fails: "fst (exportPrivateKeyToBase64 test_platform (privateKey ?kp1) empty_world)
      = Inl (DOMException InvalidAccessError)"
    by (simp add: exportPrivateKeyToBase64_eq test_keys_def)
  have private_ok: "exportPrivateKeyToBase64 test_platform (privateKey ?kp2) empty_world
      = (Inr (js ''BAUG''), ?w1)"
    by (simp add: exportPrivateKeyToBase64_eq test_keys_def test_platform_def b64_encode_456
        del: list.map)
  have public_fails: "fst (exportPublicKeyToBase64 test_platform (publicKey ?kp2) ?w1)
      = Inl (DOMException InvalidAccessError)"
    by (simp add: exportPublicKeyToBase64_eq test_keys_def)
  note first = save_never_propagates
      [where P = test_platform and keys = "Some ?kp1" and kp = ?kp1 and w = empty_world
        and e = "DOMException InvalidAccessError"]
  note second = save_never_propagates
      [where P = test_platform and kp = ?kp2 and w = empty_world
        and e = "DOMException InvalidAccessError" and x = "js ''BAUG''" and ?w1.0 = ?w1]
  have a: "fst (saveKeysToLocalStorage test_platform (Some ?kp1) empty_world) = Inr ()"
    using first [THEN conjunct1] .
  have b: "localStorage (snd (saveKeysToLocalStorage test_platform (Some ?kp1) empty_world))
        = localStorage empty_world
      \<and> console (snd (saveKeysToLocalStorage test_platform (Some ?kp1) empty_world))
        = console empty_world @ [DOMException InvalidAccessError]"
    using first [THEN conjunct2, THEN conjunct1, THEN mp, OF private_fails] .
  have c: "localStorage (snd (saveKeysToLocalStorage test_platform (Some ?kp2) empty_world))
        = localStorage empty_world
      \<and> console (snd (saveKeysToLocalStorage test_platform (Some ?kp2) empty_world))
        = console empty_world @ [DOMException InvalidAccessError]"
    using second [THEN conjunct2, THEN conjunct2, THEN mp, OF conjI, OF private_ok public_fails] .
  show ?thesis
    using a b c by (simp add: empty_world_def)
qed

text \<open>
  Claim C6. When the body of \<^verbatim>\<open>saveKeysToLocalStorage\<close> completes without an error, the
  storage afterwards is the storage before with exactly the three fields
  \<^verbatim>\<open>privateKeyBase64\<close>, \<^verbatim>\<open>publicKeyBase64\<close> and \<^verbatim>\<open>ttl\<close> written: the two exported keys
  and the decimal numeral of the clock plus 3600000 milliseconds, which \<^verbatim>\<open>parseInt\<close> reads
  back as that number. No other operation of the library changes the storage, and so
  none changes the stored expiration value.
\<close>

theorem save_writes_three_fields:
  "(fst (saveKeysToLocalStorage_try P keys w) = Inr () \<longrightarrow>
      (\<exists>kp. keys = Some kp
         \<and> fst (exportPrivateKeyToBase64 P (privateKey kp) w)
             = Inr (b64_encode (map unat (encode_pkcs8 P (key_data (privateKey kp)))))
         \<and> fst (exportPublicKeyToBase64 P (publicKey kp) w)
             = Inr (b64_encode (map unat (encode_spki P (key_data (publicKey kp)))))
         \<and> localStorage (snd (saveKeysToLocalStorage P keys w)) =
             (localStorage w)
               (''privateKeyBase64'' \<mapsto>
                  b64_encode (map unat (encode_pkcs8 P (key_data (privateKey kp)))),
                ''publicKeyBase64'' \<mapsto>
                  b64_encode (map unat (encode_spki P (key_data (publicKey kp)))),
                ''ttl'' \<mapsto> Number_toString (clock w + 3600000))))
   \<and> parseInt (Number_toString (clock w + 3600000)) = Some (clock w + 3600000)
   \<and> localStorage (snd (createKeys P w)) = localStorage w
   \<and> localStorage (snd (fetchKeysFromLocalStorage P w)) = localStorage w
   \<and> localStorage (snd (exportPublicKeyToBase64 P key w)) = localStorage w
   \<and> localStorage (snd (exportPrivateKeyToBase64 P key w)) = localStorage w
   \<and> localStorage (snd (importPublicKey P pem w)) = localStorage w
   \<and> localStorage (snd (importPrivateKey P pem w)) = localStorage w
   \<and> localStorage (snd (encryptMessage P pem message w)) = localStorage w
   \<and> localStorage (snd (decryptMessage P key encryptedMessage w)) = localStorage w"
proof -
  have save: "\<exists>kp. keys = Some kp
         \<and> fst (exportPrivateKeyToBase64 P (privateKey kp) w)
             = Inr (b64_encode (map unat (encode_pkcs8 P (key_data (privateKey kp)))))
         \<and> fst (exportPublicKeyToBase64 P (publicKey kp) w)
             = Inr (b64_encode (map unat (encode_spki P (key_data (publicKey kp)))))
         \<and> localStorage (snd (saveKeysToLocalStorage P keys w)) =
             (localStorage w)
               (''privateKeyBase64'' \<mapsto>
                  b64_encode (map unat (encode_pkcs8 P (key_data (privateKey kp)))),
                ''publicKeyBase64'' \<mapsto>
                  b64_encode (map unat (encode_spki P (key_data (publicKey kp)))),
                ''ttl'' \<mapsto> Number_toString (clock w + 3600000))"
    if ok: "fst (saveKeysToLocalStorage_try P keys w) = Inr ()"
  proof (cases keys)
    case None
    then show ?thesis using ok by (simp add: saveKeysToLocalStorage_try_None)
  next
    case (Some kp)
    obtain w' where body: "saveKeysToLocalStorage_try P (Some kp) w = (Inr (), w')"
      using ok Some by (cases "saveKeysToLocalStorage_try P (Some kp) w") auto
    have priv: "extractable (privateKey kp) \<and> key_type (privateKey kp) = Private"
      and pub: "extractable (publicKey kp) \<and> key_type (publicKey kp) = Public"
      and w': "localStorage w' = (localStorage w)
               (''privateKeyBase64'' \<mapsto>
                  b64_encode (map unat (encode_pkcs8 P (key_data (privateKey kp)))),
                ''publicKeyBase64'' \<mapsto>
                  b64_encode (map unat (encode_spki P (key_data (publicKey kp)))),
                ''ttl'' \<mapsto> Number_toString (clock w + 3600000))"
      using body by (auto simp: saveKeysToLocalStorage_try_Some Let_def split: if_splits)
    have "saveKeysToLocalStorage P keys w = (Inr (), w')"
      using body Some by (simp add: saveKeysToLocalStorage_succeeded)
    then show ?thesis
      using Some priv pub w'
      by (simp add: exportPrivateKeyToBase64_eq exportPublicKeyToBase64_eq)
  qed
  show ?thesis
    using save
    by (simp add: parseInt_Number_toString createKeys_storage fetchKeysFromLocalStorage_storage
        exportKeys_storage importPublicKey_storage importPrivateKey_storage
        encryptMessage_storage decryptMessage_storage)
qed

theorem save_writes_three_fields_witness:
  "localStorage (snd (saveKeysToLocalStorage test_platform (Some test_keys) empty_world))
     = [''privateKeyBase64'' \<mapsto> js ''BAUG'', ''publicKeyBase64'' \<mapsto> js ''AQID'',
        ''ttl'' \<mapsto> js ''3601000'']
   \<and> parseInt (js ''3601000'') = Some 3601000"
proof -
  have ok: "fst (saveKeysToLocalStorage_try test_platform (Some test_keys) empty_world) = Inr ()"
    by (simp add: saveKeysToLocalStorage_try_Some test_keys_def test_platform_def Let_def)
  have c: "clock empty_world + 3600000 = 3601000"
    by (simp add: empty_world_def)
  note general = save_writes_three_fields
      [where P = test_platform and keys = "Some test_keys" and w = empty_world]
  from general [THEN conjunct1, THEN mp, OF ok]
  have "localStorage (snd (saveKeysToLocalStorage test_platform (Some test_keys) empty_world)) =
      (localStorage empty_world)
        (''privateKeyBase64'' \<mapsto>
           b64_encode (map unat (encode_pkcs8 test_platform (key_data (privateKey test_keys)))),
         ''publicKeyBase64'' \<mapsto>
           b64_encode (map unat (encode_spki test_platform (key_data (publicKey test_keys)))),
         ''ttl'' \<mapsto> Number_toString (clock empty_world + 3600000))"
    by auto
  moreover have "encode_pkcs8 test_platform (key_data (privateKey test_keys)) = [4, 5, 6]"
    and "encode_spki test_platform (key_data (publicKey test_keys)) = [1, 2, 3]"
    by (simp_all add: test_platform_def)
  moreover have "localStorage empty_world = Map.empty"
    by (simp add: empty_world_def)
  ultimately have stored:
    "localStorage (snd (saveKeysToLocalStorage test_platform (Some test_keys) empty_world))
     = [''privateKeyBase64'' \<mapsto> js ''BAUG'', ''publicKeyBase64'' \<mapsto> js ''AQID'',
        ''ttl'' \<mapsto> js ''3601000'']"
    by (simp only: b64_encode_456 b64_encode_123 c Number_toString_3601000)
  have "parseInt (js ''3601000'') = Some 3601000"
    using general [THEN conjunct2, THEN conjunct1]
    by (simp only: c Number_toString_3601000)
  then show ?thesis using stored by simp
qed

section \<open>The claims about keys and encryption\<close>

text \<open>
  Claim C7. Whenever \<^verbatim>\<open>importPublicKey\<close> returns a key handle, it is a public key whose
  only usage is encrypt, and whenever \<^verbatim>\<open>importPrivateKey\<close> returns one, it is a private
  key whose only usage is decrypt, both with the algorithm RSA-OAEP and the hash
  SHA-256. On the Base64 text of a key structure that the platform accepts (an encoded
  key) each of the two returns such a handle.
\<close>

theorem import_usages:
  "(fst (importPublicKey P pem w) = Inr key \<longrightarrow>
      key_type key = Public \<and> usages key = [Encrypt]
      \<and> alg_name key = RSA_OAEP \<and> alg_hash key = SHA_256)
   \<and> (fst (importPrivateKey P pem w) = Inr key \<longrightarrow>
      key_type key = Private \<and> usages key = [Decrypt]
      \<and> alg_name key = RSA_OAEP \<and> alg_hash key = SHA_256)
   \<and> (parse_spki P der = Some k \<longrightarrow>
      fst (importPublicKey P (b64_encode (map unat der)) w) =
        Inr \<lparr>key_type = Public, extractable = True, alg_name = RSA_OAEP,
             alg_hash = SHA_256, usages = [Encrypt], key_data = k\<rparr>)
   \<and> (parse_pkcs8 P der = Some k \<longrightarrow>
      fst (importPrivateKey P (b64_encode (map unat der)) w) =
        Inr \<lparr>key_type = Private, extractable = True, alg_name = RSA_OAEP,
             alg_hash = SHA_256, usages = [Decrypt], key_data = k\<rparr>)"
proof (intro conjI impI)
  assume "fst (importPublicKey P pem w) = Inr key"
  then have "key_type key = Public \<and> usages key = [Encrypt]
      \<and> alg_name key = RSA_OAEP \<and> alg_hash key = SHA_256"
    by (auto simp: importPublicKey_eq split: sum.splits option.splits)
  then show "key_type key = Public" "usages key = [Encrypt]"
    "alg_name key = RSA_OAEP" "alg_hash key = SHA_256" by simp_all
next
  assume "fst (importPrivateKey P pem w) = Inr key"
  then have "key_type key = Private \<and> usages key = [Decrypt]
      \<and> alg_name key = RSA_OAEP \<and> alg_hash key = SHA_256"
    by (auto simp: importPrivateKey_eq split: sum.splits option.splits)
  then show "key_type key = Private" "usages key = [Decrypt]"
    "alg_name key = RSA_OAEP" "alg_hash key = SHA_256" by simp_all
next
  assume "parse_spki P der = Some k"
  then show "fst (importPublicKey P (b64_encode (map unat der)) w) =
        Inr \<lparr>key_type = Public, extractable = True, alg_name = RSA_OAEP,
             alg_hash = SHA_256, usages = [Encrypt], key_data = k\<rparr>"
    by (simp add: importPublicKey_eq atob_encoded str2ab_ab2str)
next
  assume "parse_pkcs8 P der = Some k"
  then show "fst (importPrivateKey P (b64_encode (map unat der)) w) =
        Inr \<lparr>key_type = Private, extractable = True, alg_name = RSA_OAEP,
             alg_hash = SHA_256, usages = [Decrypt], key_data = k\<rparr>"
    by (simp add: importPrivateKey_eq atob_encoded str2ab_ab2str)
qed

theorem import_usages_witness:
  "fst (importPublicKey test_platform (js ''AQID'') empty_world) = Inr (publicKey test_keys)
   \<and> usages (publicKey test_keys) = [Encrypt]
   \<and> fst (importPrivateKey test_platform (js ''BAUG'') empty_world) = Inr (privateKey test_keys)
   \<and> usages (privateKey test_keys) = [Decrypt]"
proof -
  have spki: "parse_spki test_platform [1, 2, 3] = Some test_public"
    and pkcs8: "parse_pkcs8 test_platform [4, 5, 6] = Some test_private"
    by (simp_all add: test_platform_def)
  note general = import_usages [where P = test_platform and w = empty_world]
  have pub: "fst (importPublicKey test_platform (js ''AQID'') empty_world)
      = Inr (publicKey test_keys)"
    using general [where der = "[1, 2, 3]" and k = test_public,
        THEN conjunct2, THEN conjunct2, THEN conjunct1, THEN mp, OF spki]
    unfolding b64_encode_123 by (simp add: test_keys_def)
  have priv: "fst (importPrivateKey test_platform (js ''BAUG'') empty_world)
      = Inr (privateKey test_keys)"
    using general [where der = "[4, 5, 6]" and k = test_private,
        THEN conjunct2, THEN conjunct2, THEN conjunct2, THEN mp, OF pkcs8]
    unfolding b64_encode_456 by (simp add: test_keys_def)
  have "usages (publicKey test_keys) = [Encrypt]"
    using general [where pem = "js ''AQID''" and key = "publicKey test_keys", THEN conjunct1] pub
    by simp
  moreover have "usages (privateKey test_keys) = [Decrypt]"
    using general [where pem = "js ''BAUG''" and key = "privateKey test_keys",
        THEN conjunct2, THEN conjunct1] priv
    by simp
  ultimately show ?thesis using pub priv by simp
qed

text \<open>
  Claim C2, as amended. With the Base64 text of a 2048-bit public key,
  \<^verbatim>\<open>encryptMessage\<close> imports the key and then always calls \<^verbatim>\<open>crypto.subtle.encrypt\<close>; it
  makes no check of the length itself. For a message of more than 190 bytes in UTF-8
  the failure is the \<^verbatim>\<open>OperationError\<close> of that call; a message of at most 190 bytes is
  encrypted.
\<close>

theorem encrypt_size_bound:
  assumes "atob publicKeyBase64 = Inr binaryDerString"
    and "parse_spki P (str2ab binaryDerString) = Some k"
    and "modulus_bits k = 2048"
  shows "subtle_calls (snd (encryptMessage P publicKeyBase64 message w))
           = subtle_calls w @ [ImportKeyCall Spki, EncryptCall]
       \<and> (190 < length (utf8_encode message) \<longrightarrow>
            fst (encryptMessage P publicKeyBase64 message w) = Inl (DOMException OperationError))
       \<and> (length (utf8_encode message) \<le> 190 \<longrightarrow>
            fst (encryptMessage P publicKeyBase64 message w)
              = Inr (rsaes_oaep_encrypt P k SHA_256 (utf8_encode message)))"
proof -
  have "modulus_bytes k = 256" using assms(3) by (simp add: modulus_bytes_def)
  then show ?thesis using assms(1,2) by (auto simp: encryptMessage_eq)
qed

theorem encrypt_size_bound_witness:
  "fst (encryptMessage test_platform (js ''AQID'') (replicate 190 97) empty_world)
     = Inr (replicate 190 97)
   \<and> fst (encryptMessage test_platform (js ''AQID'') (replicate 191 97) empty_world)
     = Inl (DOMException OperationError)
   \<and> subtle_calls (snd (encryptMessage test_platform (js ''AQID'') (replicate 191 97) empty_world))
     = [ImportKeyCall Spki, EncryptCall]"
proof -
  note general = encrypt_size_bound [OF test_platform_spki, where w = empty_world]
  have "fst (encryptMessage test_platform (js ''AQID'') (replicate 190 97) empty_world)
     = Inr (replicate 190 97)"
    using general [where message = "replicate 190 97", THEN conjunct2, THEN conjunct2]
    by (simp add: utf8_encode_a test_platform_def)
  moreover have "fst (encryptMessage test_platform (js ''AQID'') (replicate 191 97) empty_world)
     = Inl (DOMException OperationError)"
    using general [where message = "replicate 191 97", THEN conjunct2, THEN conjunct1]
    by (simp add: utf8_encode_a)
  moreover have "subtle_calls
      (snd (encryptMessage test_platform (js ''AQID'') (replicate 191 97) empty_world))
     = [ImportKeyCall Spki, EncryptCall]"
    using general [where message = "replicate 191 97", THEN conjunct1]
    by (simp add: empty_world_def)
  ultimately show ?thesis by simp
qed

text \<open>
  The claim C2 as stated has the error raised before the cryptographic call is
  attempted. For a message of 191 bytes the call to \<^verbatim>\<open>encrypt\<close> is made, and the error is
  the one that call throws.
\<close>

theorem encrypt_precheck_counterexample:
  "190 < length (utf8_encode (replicate 191 97))
   \<and> fst (encryptMessage test_platform (js ''AQID'') (replicate 191 97) empty_world)
       = Inl (DOMException OperationError)
   \<and> EncryptCall \<in> set (subtle_calls
        (snd (encryptMessage test_platform (js ''AQID'') (replicate 191 97) empty_world)))"
  by (simp add: encryptMessage_eq test_platform_spki utf8_encode_a modulus_bytes_def
      test_public_def)

end
